theory Spec2Isabelle
  imports Complex_Main
begin

section \<open>Strings and numbers as the worker renders them\<close>

text \<open>
  \<^verbatim>\<open>::tolower\<close> in the "C" locale, applied by \<^verbatim>\<open>std::transform\<close> to every character of a
  source field name (worker.cpp, line 112).
\<close>

definition tolower :: "char \<Rightarrow> char" where
  "tolower c =
     (if 65 \<le> (of_char c :: nat) \<and> (of_char c :: nat) \<le> 90
      then char_of ((of_char c :: nat) + 32) else c)"

text \<open>
  Modelled from the spec: \<^verbatim>\<open>StringUtils::join\<close> (common/stringutils.h is not among the
  sources), "join a list of quoted identifiers with a separator".
\<close>

fun join :: "string list \<Rightarrow> string \<Rightarrow> string" where
  "join [] sep = []"
| "join [x] sep = x"
| "join (x # y # xs) sep = x @ sep @ join (y # xs) sep"

text \<open>Decimal digits of an unsigned number, as \<^verbatim>\<open>operator<<\<close> and \<^verbatim>\<open>std::to_string\<close> print them.\<close>

definition digit_char :: "nat \<Rightarrow> char" where
  "digit_char d = char_of (48 + d)"

fun string_of_nat :: "nat \<Rightarrow> string" where
  "string_of_nat n =
     (if n < 10 then [digit_char n] else string_of_nat (n div 10) @ [digit_char (n mod 10)])"

declare string_of_nat.simps [simp del]

text \<open>\<^verbatim>\<open>std::to_string(int)\<close>.\<close>

definition to_string_int :: "int \<Rightarrow> string" where
  "to_string_int i =
     (if i < 0 then CHR ''-'' # string_of_nat (nat (- i)) else string_of_nat (nat i))"

text \<open>
  \<^verbatim>\<open>std::atoi\<close> on the text \<^verbatim>\<open>PQcmdTuples\<close> returns: leading white space is skipped, an
  optional sign is read, then the longest run of decimal digits; no digits give 0. The
  result is an unbounded \<open>int\<close> (a count beyond the range of a C \<^verbatim>\<open>int\<close> is undefined
  in C and does not occur for row counts).
\<close>

definition is_digit :: "char \<Rightarrow> bool" where
  "is_digit c = (48 \<le> (of_char c :: nat) \<and> (of_char c :: nat) \<le> 57)"

definition is_space :: "char \<Rightarrow> bool" where
  "is_space c = ((of_char c :: nat) = 32 \<or> (9 \<le> (of_char c :: nat) \<and> (of_char c :: nat) \<le> 13))"

fun digits_value :: "nat \<Rightarrow> string \<Rightarrow> nat" where
  "digits_value acc [] = acc"
| "digits_value acc (c # cs) =
     (if is_digit c then digits_value (10 * acc + ((of_char c :: nat) - 48)) cs else acc)"

definition atoi :: "string \<Rightarrow> int" where
  "atoi s =
     (case dropWhile is_space s of
        [] \<Rightarrow> 0
      | c # cs \<Rightarrow>
          if c = CHR ''-'' then - int (digits_value 0 cs)
          else if c = CHR ''+'' then int (digits_value 0 cs)
          else int (digits_value 0 (c # cs)))"

section \<open>The layer configuration\<close>

text \<open>
  Modelled from the spec: the layer configuration record (common/config.h of the server is
  not among the sources); the fields are the members \<^verbatim>\<open>Worker::pull\<close> reads.
\<close>

record Layer =
  layer_name :: string
  source :: string
  source_layer :: string
  target_table_schema :: string
  target_table_name :: string

section \<open>The UPDATE statement of the differential reconciliation\<close>

text \<open>
  Lines 268 to 296 of worker.cpp write the statement into a \<^verbatim>\<open>std::stringstream\<close>. Each of
  the three loops runs an index over a vector and writes a separator when the index is
  not 0; the functions below carry that index.
\<close>

fun set_clause_loop :: "string \<Rightarrow> string list \<Rightarrow> nat \<Rightarrow> string" where
  "set_clause_loop tempTableName [] i = []"
| "set_clause_loop tempTableName (c # cs) i =
     (if i \<noteq> 0 then '', '' else [])
     @ ''\"'' @ c @ ''\" = \"'' @ tempTableName @ ''\".\"'' @ c @ ''\" ''
     @ set_clause_loop tempTableName cs (Suc i)"

fun pk_condition_loop :: "string \<Rightarrow> string \<Rightarrow> string list \<Rightarrow> nat \<Rightarrow> string" where
  "pk_condition_loop tbl tempTableName [] i = []"
| "pk_condition_loop tbl tempTableName (c # cs) i =
     (if i \<noteq> 0 then '' and '' else [])
     @ ''\"'' @ tbl @ ''\".\"'' @ c @ ''\" is not distinct from \"'' @ tempTableName
     @ ''\".\"'' @ c @ ''\"''
     @ pk_condition_loop tbl tempTableName cs (Suc i)"

fun diff_condition_loop :: "string \<Rightarrow> string \<Rightarrow> string list \<Rightarrow> nat \<Rightarrow> string" where
  "diff_condition_loop tbl tempTableName [] i = []"
| "diff_condition_loop tbl tempTableName (c # cs) i =
     (if i \<noteq> 0 then '' or '' else [])
     @ ''(\"'' @ tbl @ ''\".\"'' @ c @ ''\" is distinct from  \"'' @ tempTableName
     @ ''\".\"'' @ c @ ''\")''
     @ diff_condition_loop tbl tempTableName cs (Suc i)"

definition updateStmt :: "Layer \<Rightarrow> string \<Rightarrow> string list \<Rightarrow> string list \<Rightarrow> string" where
  "updateStmt layer tempTableName updateColumns primaryKeyColumns =
     ''update \"'' @ target_table_schema layer @ ''\".\"'' @ target_table_name layer @ ''\" ''
     @ '' set ''
     @ set_clause_loop tempTableName updateColumns 0
     @ '' from \"'' @ tempTableName @ ''\"''
     @ '' where (''
     @ pk_condition_loop (target_table_name layer) tempTableName primaryKeyColumns 0
     @ '') and (''
     @ diff_condition_loop (target_table_name layer) tempTableName updateColumns 0
     @ '')''"

subsection \<open>The statement as PostgreSQL reads it\<close>

text \<open>
  The statement is executed by PostgreSQL, which is no part of the repository. Its reading
  of the text is modelled by a syntax tree for the fragment of SQL that the builder writes
  (\<^verbatim>\<open>UPDATE t SET c = r, ... FROM f WHERE e\<close> with \<^verbatim>\<open>IS [NOT] DISTINCT FROM\<close>,
  \<^verbatim>\<open>AND\<close>, \<^verbatim>\<open>OR\<close> and parentheses), a printer of that tree, and the documented meaning of
  the fragment. Lemma \<open>updateStmt_render\<close> below proves that the text written by the
  builder is the print of the tree \<open>update_ast\<close>, character by character.
\<close>

datatype colref = ColRef string string

datatype expr =
    IsNotDistinctFrom colref colref
  | IsDistinctFrom colref colref
  | And "expr list"
  | Or "expr list"
  | Paren expr

record update_stmt =
  upd_schema :: string
  upd_table :: string
  upd_set :: "(string \<times> colref) list"
  upd_from :: string
  upd_where :: expr

fun render_colref :: "colref \<Rightarrow> string" where
  "render_colref (ColRef t c) = ''\"'' @ t @ ''\".\"'' @ c @ ''\"''"

fun render_expr :: "expr \<Rightarrow> string" where
  "render_expr (IsNotDistinctFrom a b) =
     render_colref a @ '' is not distinct from '' @ render_colref b"
| "render_expr (IsDistinctFrom a b) =
     render_colref a @ '' is distinct from  '' @ render_colref b"
| "render_expr (And es) = join (map render_expr es) '' and ''"
| "render_expr (Or es) = join (map render_expr es) '' or ''"
| "render_expr (Paren e) = ''('' @ render_expr e @ '')''"

definition render_assignment :: "string \<times> colref \<Rightarrow> string" where
  "render_assignment a = ''\"'' @ fst a @ ''\" = '' @ render_colref (snd a) @ '' ''"

definition render_update :: "update_stmt \<Rightarrow> string" where
  "render_update u =
     ''update \"'' @ upd_schema u @ ''\".\"'' @ upd_table u @ ''\"  set ''
     @ join (map render_assignment (upd_set u)) '', ''
     @ '' from \"'' @ upd_from u @ ''\" where '' @ render_expr (upd_where u)"

definition update_ast :: "Layer \<Rightarrow> string \<Rightarrow> string list \<Rightarrow> string list \<Rightarrow> update_stmt" where
  "update_ast layer tempTableName updateColumns primaryKeyColumns =
     \<lparr> upd_schema = target_table_schema layer,
       upd_table = target_table_name layer,
       upd_set = map (\<lambda>c. (c, ColRef tempTableName c)) updateColumns,
       upd_from = tempTableName,
       upd_where =
         And [Paren (And (map (\<lambda>c. IsNotDistinctFrom (ColRef (target_table_name layer) c)
                                                       (ColRef tempTableName c))
                              primaryKeyColumns)),
              Paren (Or (map (\<lambda>c. Paren (IsDistinctFrom (ColRef (target_table_name layer) c)
                                                          (ColRef tempTableName c)))
                             updateColumns))] \<rparr>"

text \<open>
  Syntax: PostgreSQL's grammar asks for at least one assignment after \<^verbatim>\<open>SET\<close> and for an
  expression between parentheses and on both sides of \<^verbatim>\<open>AND\<close> and \<^verbatim>\<open>OR\<close>; a table named
  twice in one statement without an alias is refused ("table name specified more than
  once").
\<close>

fun valid_expr :: "expr \<Rightarrow> bool" where
  "valid_expr (IsNotDistinctFrom a b) = True"
| "valid_expr (IsDistinctFrom a b) = True"
| "valid_expr (And es) = (es \<noteq> [] \<and> list_all valid_expr es)"
| "valid_expr (Or es) = (es \<noteq> [] \<and> list_all valid_expr es)"
| "valid_expr (Paren e) = valid_expr e"

definition valid_update :: "update_stmt \<Rightarrow> bool" where
  "valid_update u =
     (upd_set u \<noteq> [] \<and> valid_expr (upd_where u) \<and> upd_from u \<noteq> upd_table u)"

text \<open>
  Meaning. A row maps a column name to \<open>None\<close> (NULL) or to a value; values are compared
  by equality. \<^verbatim>\<open>a IS DISTINCT FROM b\<close> is never NULL: two NULLs are not distinct, a NULL
  and a value are, two values are when they are unequal. A column reference whose table
  is the \<^verbatim>\<open>FROM\<close> table reads the joined row, any other reads the target row.
\<close>

type_synonym 'v row = "string \<Rightarrow> 'v option"

fun eval_colref :: "update_stmt \<Rightarrow> 'v row \<Rightarrow> 'v row \<Rightarrow> colref \<Rightarrow> 'v option" where
  "eval_colref u t s (ColRef tbl c) = (if tbl = upd_from u then s c else t c)"

fun eval_expr :: "update_stmt \<Rightarrow> 'v row \<Rightarrow> 'v row \<Rightarrow> expr \<Rightarrow> bool" where
  "eval_expr u t s (IsNotDistinctFrom a b) = (eval_colref u t s a = eval_colref u t s b)"
| "eval_expr u t s (IsDistinctFrom a b) = (eval_colref u t s a \<noteq> eval_colref u t s b)"
| "eval_expr u t s (And es) = list_all (eval_expr u t s) es"
| "eval_expr u t s (Or es) = list_ex (eval_expr u t s) es"
| "eval_expr u t s (Paren e) = eval_expr u t s e"

text \<open>
  \<^verbatim>\<open>UPDATE ... FROM\<close>: a target row is updated when at least one row of the \<^verbatim>\<open>FROM\<close> table
  satisfies the condition together with it; it is then updated once, from one of those
  rows (PostgreSQL does not say which; the model takes the first), and counted once.
  An invalid statement is an error (\<open>None\<close>) and changes nothing.
\<close>

definition apply_set :: "update_stmt \<Rightarrow> 'v row \<Rightarrow> 'v row \<Rightarrow> 'v row" where
  "apply_set u t s =
     (\<lambda>c. case map_of (upd_set u) c of None \<Rightarrow> t c | Some r \<Rightarrow> eval_colref u t s r)"

definition update_row :: "update_stmt \<Rightarrow> 'v row list \<Rightarrow> 'v row \<Rightarrow> 'v row" where
  "update_row u scratch t =
     (case filter (\<lambda>s. eval_expr u t s (upd_where u)) scratch of
        [] \<Rightarrow> t
      | s # _ \<Rightarrow> apply_set u t s)"

definition run_update ::
  "update_stmt \<Rightarrow> 'v row list \<Rightarrow> 'v row list \<Rightarrow> ('v row list \<times> nat) option" where
  "run_update u target scratch =
     (if valid_update u
      then Some (map (update_row u scratch) target,
                 length (filter (\<lambda>t. list_ex (\<lambda>s. eval_expr u t s (upd_where u)) scratch) target))
      else None)"

section \<open>Jobs, exceptions and the worker's surroundings\<close>

text \<open>
  The exception classes the worker loop tells apart (worker.cpp, lines 371 to 389):
  \<^verbatim>\<open>Batyr::Db::DbError\<close>, \<^verbatim>\<open>WorkerError\<close>, any other \<^verbatim>\<open>std::runtime_error\<close>, and an
  exception that is none of them. Each carries its \<^verbatim>\<open>what()\<close> text.
\<close>

datatype exn = DbError string | WorkerError string | RuntimeError string | OtherException string

fun what :: "exn \<Rightarrow> string" where
  "what (DbError m) = m"
| "what (WorkerError m) = m"
| "what (RuntimeError m) = m"
| "what (OtherException m) = m"

text \<open>
  Modelled from the spec: the job record (server/job.h is not among the sources): identity,
  layer name, filter, status, message and the statistics pulled, created, updated,
  deleted. Each setter is one mutation of the shared record.
\<close>

datatype Status = QUEUED | IN_PROCESS | FINISHED | FAILED

record Job =
  getId :: string
  getLayerName :: string
  getFilter :: string
  getStatus :: Status
  getMessage :: string
  numPulled :: int
  numCreated :: int
  numUpdated :: int
  numDeleted :: int

definition setStatus :: "Status \<Rightarrow> Job \<Rightarrow> Job" where
  "setStatus s j = j\<lparr>getStatus := s\<rparr>"

definition setMessage :: "string \<Rightarrow> Job \<Rightarrow> Job" where
  "setMessage m j = j\<lparr>getMessage := m\<rparr>"

definition setStatistics :: "int \<Rightarrow> int \<Rightarrow> int \<Rightarrow> int \<Rightarrow> Job \<Rightarrow> Job" where
  "setStatistics p c u d j = j\<lparr>numPulled := p, numCreated := c, numUpdated := u, numDeleted := d\<rparr>"

subsection \<open>The source dataset (OGR)\<close>

text \<open>
  The field kinds the switch of lines 233 to 246 tells apart; every other kind is kept with
  its numeric tag. The tags are those of \<^verbatim>\<open>OGRFieldType\<close>.
\<close>

datatype OGRFieldType = OFTInteger | OFTReal | OFTString | OFTOther int

fun field_type_tag :: "OGRFieldType \<Rightarrow> int" where
  "field_type_tag OFTInteger = 0"
| "field_type_tag OFTReal = 2"
| "field_type_tag OFTString = 4"
| "field_type_tag (OFTOther n) = n"

text \<open>
  A double: sign, mantissa and binary exponent of a finite value
  \<open>(-1)\<^sup>s \<sqdot> m \<sqdot> 2\<^sup>e\<close>, an infinity or a NaN.
\<close>

datatype double = Finite bool nat int | Infinity bool | NaN bool

record OGRFieldDefn =
  GetNameRef :: string
  GetType :: OGRFieldType

text \<open>
  A feature answers the accessors the worker calls. For the geometry, the record holds
  what the three calls of lines 214 to 223 return: whether \<^verbatim>\<open>CPLMalloc\<close> gave a buffer,
  the bytes \<^verbatim>\<open>exportToWkb\<close> wrote (\<open>None\<close> when it reports an error), and whether
  \<^verbatim>\<open>CPLBinaryToHex\<close> gave a string. A feature without a geometry (a null
  \<^verbatim>\<open>GetGeometryRef\<close>, which line 212 dereferences) is outside the model.
\<close>

record OGRFeature =
  GetFieldAsString :: "nat \<Rightarrow> string"
  GetFieldAsInteger :: "nat \<Rightarrow> int"
  GetFieldAsDouble :: "nat \<Rightarrow> double"
  CPLMalloc_ok :: bool
  exportToWkb :: "string option"
  CPLBinaryToHex_ok :: bool

record OGRLayer =
  SetAttributeFilter :: "string \<Rightarrow> bool"
  CPLGetLastErrorMsg :: "string \<Rightarrow> string option"
  GetGeomFieldCount :: int
  GetFieldDefns :: "OGRFieldDefn list"
  GetFeatures :: "string option \<Rightarrow> OGRFeature list"

record OGRDataSource =
  GetLayerByName :: "string \<Rightarrow> OGRLayer option"

text \<open>The struct of lines 18 to 23 and the map of line 24.\<close>

record OgrField =
  OgrField_name :: string
  OgrField_index :: nat
  OgrField_type :: OGRFieldType

type_synonym OgrFieldMap = "string \<rightharpoonup> OgrField"

text \<open>
  \<^verbatim>\<open>std::map::operator[]\<close> inserts a value-initialised struct for a missing key: an
  empty name, index 0 and the kind with tag 0.
\<close>

definition OgrField_default :: OgrField where
  "OgrField_default = \<lparr>OgrField_name = [], OgrField_index = 0, OgrField_type = OFTInteger\<rparr>"

definition OgrFieldMap_at :: "OgrFieldMap \<Rightarrow> string \<Rightarrow> OgrField" where
  "OgrFieldMap_at m k = (case m k of None \<Rightarrow> OgrField_default | Some e \<Rightarrow> e)"

subsection \<open>The database\<close>

text \<open>
  Modelled from the spec: a column of the target table as the catalog reports it
  (server/db is not among the sources): name, type name and primary-key flag. The table's
  columns are a \<^verbatim>\<open>std::map\<close> from column name to this struct, kept here as the list of
  its pairs in iteration order.
\<close>

record Field =
  field_name :: string
  pgTypeName :: string
  isPrimaryKey :: bool

type_synonym FieldMap = "(string \<times> Field) list"

definition Field_default :: Field where
  "Field_default = \<lparr>field_name = [], pgTypeName = [], isPrimaryKey = False\<rparr>"

definition FieldMap_at :: "FieldMap \<Rightarrow> string \<Rightarrow> Field" where
  "FieldMap_at m k = (case map_of m k of None \<Rightarrow> Field_default | Some f \<Rightarrow> f)"

text \<open>
  Everything the worker does to the world outside, in the order it does it: calls on the
  source, calls on the database, and mutations of the job record (with the record as an
  observer reads it after the mutation).
\<close>

datatype event =
    OgrOpen string
  | OgrGetLayerByName string
  | OgrResetReading
  | OgrSetAttributeFilter string
  | OgrGetNextFeature
  | DbReconnect
  | DbGetTransaction
  | DbCreateTempTable string string string
  | DbGetTableFields string string
  | DbPrepare string string nat
  | DbExecPrepared string "string list"
  | DbExec string
  | JobChanged Job

text \<open>
  The surroundings of a worker. The database answers a call according to everything that
  happened before it (the events so far); a failing call throws \<^verbatim>\<open>DbError\<close> with the
  text given. \<^verbatim>\<open>exec\<close> returns the text of \<^verbatim>\<open>PQcmdTuples\<close>. \<^verbatim>\<open>getLayer\<close> of the
  configuration may throw any exception. \<^verbatim>\<open>GDAL_VERSION_MAJOR\<close> is the macro of the GDAL
  headers the worker is compiled against.
\<close>

record Env =
  GDAL_VERSION_MAJOR :: nat
  getLayer :: "string \<Rightarrow> exn + Layer"
  Open :: "string \<Rightarrow> OGRDataSource option"
  reconnect :: "event list \<Rightarrow> bool"
  getTransaction :: "event list \<Rightarrow> bool"
  createTempTable :: "event list \<Rightarrow> string \<Rightarrow> string \<Rightarrow> string \<Rightarrow> string option"
  getTableFields :: "event list \<Rightarrow> string \<Rightarrow> string \<Rightarrow> string + FieldMap"
  prepare :: "event list \<Rightarrow> string \<Rightarrow> string \<Rightarrow> nat \<Rightarrow> string option"
  execPrepared :: "event list \<Rightarrow> string \<Rightarrow> string list \<Rightarrow> string option"
  exec :: "event list \<Rightarrow> string \<Rightarrow> string + string"

record pstate =
  job :: Job
  events :: "event list"

definition emit :: "event \<Rightarrow> pstate \<Rightarrow> pstate" where
  "emit e st = st\<lparr>events := events st @ [e]\<rparr>"

definition mutate :: "(Job \<Rightarrow> Job) \<Rightarrow> pstate \<Rightarrow> pstate" where
  "mutate f st = \<lparr>job = f (job st), events = events st @ [JobChanged (f (job st))]\<rparr>"

section \<open>The pull algorithm\<close>

subsection \<open>Opening and filtering the source (lines 53 to 101)\<close>

definition filter_message :: "Layer \<Rightarrow> string option \<Rightarrow> string \<Rightarrow> string" where
  "filter_message layer lastError filterString =
     ''The given filter for layer \"'' @ layer_name layer @ ''\" is invalid''
     @ (case lastError of Some e \<Rightarrow> '': '' @ e | None \<Rightarrow> ''.'')
     @ '' The applied filter was [ '' @ filterString @ '' ]''"

definition open_source :: "Env \<Rightarrow> Layer \<Rightarrow> pstate \<Rightarrow> (exn + OGRLayer) \<times> pstate" where
  "open_source env layer st =
     (let st1 = emit (OgrOpen (source layer)) st;
          st2 = emit (OgrGetLayerByName (source_layer layer)) st1;
          st3 = emit OgrResetReading st2;
          filterString = getFilter (job st);
          st4 = emit (OgrSetAttributeFilter filterString) st3
      in case Open env (source layer) of
           None \<Rightarrow>
             (Inl (WorkerError (''Could not open dataset for layer \"'' @ layer_name layer @ ''\"'')), st1)
         | Some ogrDataset \<Rightarrow>
             (case GetLayerByName ogrDataset (source_layer layer) of
                None \<Rightarrow>
                  (Inl (WorkerError (''source_layer \"'' @ source_layer layer
                          @ ''\" in dataset for layer \"'' @ layer_name layer @ ''\" not found'')), st2)
              | Some ogrLayer \<Rightarrow>
                  if filterString \<noteq> [] then
                    if \<not> SetAttributeFilter ogrLayer filterString then
                      (Inl (WorkerError (filter_message layer
                              (CPLGetLastErrorMsg ogrLayer filterString) filterString)), st4)
                    else (Inr ogrLayer, st4)
                  else (Inr ogrLayer, st3)))"

text \<open>Lines 95 to 101, compiled only when \<^verbatim>\<open>GDAL_VERSION_MAJOR > 1\<close>.\<close>

definition check_geom_field_count :: "Env \<Rightarrow> OGRLayer \<Rightarrow> exn option" where
  "check_geom_field_count env ogrLayer =
     (if GDAL_VERSION_MAJOR env > 1 \<and> GetGeomFieldCount ogrLayer \<noteq> 1 then
        Some (WorkerError (''The source provides '' @ to_string_int (GetGeomFieldCount ogrLayer)
          @ ''geometry fields. Currently only sources with on geoemtry field are supported''))
      else None)"

subsection \<open>The columns of the dataset (lines 104 to 123)\<close>

fun collect_fields :: "OGRFieldDefn list \<Rightarrow> nat \<Rightarrow> OgrFieldMap \<Rightarrow> OgrFieldMap" where
  "collect_fields [] i ogrFields = ogrFields"
| "collect_fields (ogrFieldDefn # rest) i ogrFields =
     (let fieldName = map tolower (GetNameRef ogrFieldDefn);
          entry = OgrFieldMap_at ogrFields fieldName
      in collect_fields rest (Suc i)
           (ogrFields(fieldName \<mapsto> entry\<lparr>OgrField_index := i, OgrField_type := GetType ogrFieldDefn\<rparr>)))"

subsection \<open>The columns of the target table (lines 144 to 178)\<close>

record columns =
  primaryKeyColumns :: "string list"
  geometryColumn :: string
  insertColumns :: "string list"
  updateColumns :: "string list"

definition no_columns :: columns where
  "no_columns = \<lparr>primaryKeyColumns = [], geometryColumn = [], insertColumns = [], updateColumns = []\<rparr>"

fun partition_columns :: "Job \<Rightarrow> OgrFieldMap \<Rightarrow> FieldMap \<Rightarrow> columns \<Rightarrow> exn + columns" where
  "partition_columns j ogrFields [] cols = Inr cols"
| "partition_columns j ogrFields (tableFieldPair # rest) cols =
     (let f = snd tableFieldPair;
          cols1 = (if isPrimaryKey f
                   then cols\<lparr>primaryKeyColumns := primaryKeyColumns cols @ [field_name f]\<rparr>
                   else cols\<lparr>updateColumns := updateColumns cols @ [field_name f]\<rparr>)
      in if pgTypeName f = ''geometry'' \<and> geometryColumn cols1 \<noteq> [] then
           Inl (WorkerError (''Layer \"'' @ getLayerName j
                  @ ''\" has multiple geometry columns. Currently only one is supported''))
         else
           let cols2 = (if pgTypeName f = ''geometry''
                        then cols1\<lparr>geometryColumn := field_name f,
                                   insertColumns := insertColumns cols1 @ [field_name f]\<rparr>
                        else cols1);
               cols3 = (if ogrFields (field_name f) \<noteq> None
                        then cols2\<lparr>insertColumns := insertColumns cols2 @ [field_name f]\<rparr>
                        else cols2)
           in partition_columns j ogrFields rest cols3)"

definition missingPrimaryKeysSource :: "OgrFieldMap \<Rightarrow> string list \<Rightarrow> string list" where
  "missingPrimaryKeysSource ogrFields pks = filter (\<lambda>primaryKeyCol. ogrFields primaryKeyCol = None) pks"

definition missing_message :: "Job \<Rightarrow> string list \<Rightarrow> string" where
  "missing_message j missing =
     ''The source for layer \"'' @ getLayerName j @ ''\" is missing the following fields required ''
     @ ''by the primary key: '' @ join missing '', ''"

definition check_primary_key :: "Job \<Rightarrow> OgrFieldMap \<Rightarrow> columns \<Rightarrow> exn option" where
  "check_primary_key j ogrFields cols =
     (if primaryKeyColumns cols = [] then
        Some (WorkerError (''Got no primarykey for layer \"'' @ getLayerName j @ ''\"''))
      else if missingPrimaryKeysSource ogrFields (primaryKeyColumns cols) \<noteq> [] then
        Some (WorkerError (missing_message j
                (missingPrimaryKeysSource ogrFields (primaryKeyColumns cols))))
      else None)"

text \<open>Lines 133 to 178: the scratch table, the catalog query and the two checks.\<close>

definition tempTableName :: "Job \<Rightarrow> string" where
  "tempTableName j = ''batyr_'' @ getId j"

definition introspect ::
  "Env \<Rightarrow> Layer \<Rightarrow> OgrFieldMap \<Rightarrow> pstate \<Rightarrow> (exn + FieldMap \<times> columns) \<times> pstate" where
  "introspect env layer ogrFields st =
     (let st1 = emit (DbCreateTempTable (target_table_schema layer) (target_table_name layer)
                        (tempTableName (job st))) st;
          st2 = emit (DbGetTableFields (target_table_schema layer) (target_table_name layer)) st1
      in case createTempTable env (events st) (target_table_schema layer) (target_table_name layer)
                (tempTableName (job st)) of
           Some m \<Rightarrow> (Inl (DbError m), st1)
         | None \<Rightarrow>
             (case getTableFields env (events st1) (target_table_schema layer)
                     (target_table_name layer) of
                Inl m \<Rightarrow> (Inl (DbError m), st2)
              | Inr tableFields \<Rightarrow>
                  (case partition_columns (job st) ogrFields tableFields no_columns of
                     Inl e \<Rightarrow> (Inl e, st2)
                   | Inr cols \<Rightarrow>
                       (case check_primary_key (job st) ogrFields cols of
                          Some e \<Rightarrow> (Inl e, st2)
                        | None \<Rightarrow> (Inr (tableFields, cols), st2)))))"

subsection \<open>Streaming the features into the scratch table (lines 181 to 263)\<close>

fun insertQueryValues :: "FieldMap \<Rightarrow> string list \<Rightarrow> nat \<Rightarrow> string list" where
  "insertQueryValues tableFields [] idxColumn = []"
| "insertQueryValues tableFields (insertColumn # rest) idxColumn =
     (''$'' @ string_of_nat idxColumn @ ''::'' @ pgTypeName (FieldMap_at tableFields insertColumn))
     # insertQueryValues tableFields rest (Suc idxColumn)"

definition insertQuery :: "string \<Rightarrow> FieldMap \<Rightarrow> string list \<Rightarrow> string" where
  "insertQuery tmp tableFields cols =
     ''insert into \"'' @ tmp @ ''\" (\"'' @ join cols ''\", \"'' @ ''\") values (''
     @ join (insertQueryValues tableFields cols 1) '', '' @ '')''"

definition insertStmtName :: "Job \<Rightarrow> string" where
  "insertStmtName j = ''batyr_insert'' @ getId j"

text \<open>\<^verbatim>\<open>CPLBinaryToHex\<close> of GDAL: two upper-case hexadecimal digits for every byte.\<close>

definition hex_digit :: "nat \<Rightarrow> char" where
  "hex_digit n = ''0123456789ABCDEF'' ! (n mod 16)"

definition CPLBinaryToHex :: "string \<Rightarrow> string" where
  "CPLBinaryToHex buffer =
     concat (map (\<lambda>b. [hex_digit ((of_char b :: nat) div 16), hex_digit ((of_char b :: nat) mod 16)]) buffer)"

text \<open>Lines 207 to 230. \<open>pulled\<close> is the counter \<^verbatim>\<open>numPulled\<close> at that moment.\<close>

definition encode_geometry :: "int \<Rightarrow> OGRFeature \<Rightarrow> exn + string" where
  "encode_geometry pulled ogrFeature =
     (if \<not> CPLMalloc_ok ogrFeature then
        Inl (WorkerError ''Unable to allocate memory to export geometry'')
      else case exportToWkb ogrFeature of
        None \<Rightarrow>
          Inl (WorkerError (''Could not export the geometry from feature #'' @ to_string_int pulled))
      | Some buffer \<Rightarrow>
          if \<not> CPLBinaryToHex_ok ogrFeature then
            Inl (WorkerError ''Unable to allocate memory to convert geometry to hex'')
          else Inr (CPLBinaryToHex buffer))"

text \<open>
  \<^verbatim>\<open>std::to_string(double)\<close> prints as \<^verbatim>\<open>printf("%f")\<close> does: the value rounded to six
  digits after the decimal point (to nearest, ties to even, on the exact binary value).
\<close>

definition round_half_even :: "nat \<Rightarrow> nat \<Rightarrow> nat" where
  "round_half_even num den =
     (let q = num div den; r = num mod den
      in if 2 * r < den then q
         else if den < 2 * r then q + 1
         else if even q then q else q + 1)"

definition micro_units :: "nat \<Rightarrow> int \<Rightarrow> nat" where
  "micro_units m e =
     (if 0 \<le> e then m * 1000000 * 2 ^ nat e else round_half_even (m * 1000000) (2 ^ nat (- e)))"

definition pad6 :: "string \<Rightarrow> string" where
  "pad6 s = replicate (6 - length s) (CHR ''0'') @ s"

fun to_string_double :: "double \<Rightarrow> string" where
  "to_string_double (Finite sg m e) =
     (if sg then ''-'' else []) @ string_of_nat (micro_units m e div 1000000) @ ''.''
     @ pad6 (string_of_nat (micro_units m e mod 1000000))"
| "to_string_double (Infinity sg) = (if sg then ''-inf'' else ''inf'')"
| "to_string_double (NaN sg) = (if sg then ''-nan'' else ''nan'')"

text \<open>Lines 232 to 246.\<close>

definition field_value :: "OgrFieldMap \<Rightarrow> OGRFeature \<Rightarrow> string \<Rightarrow> exn + string" where
  "field_value ogrFields ogrFeature insertColumn =
     (let ogrField = OgrFieldMap_at ogrFields insertColumn in
      case OgrField_type ogrField of
        OFTString \<Rightarrow> Inr (GetFieldAsString ogrFeature (OgrField_index ogrField))
      | OFTInteger \<Rightarrow> Inr (to_string_int (GetFieldAsInteger ogrFeature (OgrField_index ogrField)))
      | OFTReal \<Rightarrow> Inr (to_string_double (GetFieldAsDouble ogrFeature (OgrField_index ogrField)))
      | OFTOther n \<Rightarrow>
          Inl (WorkerError (''Unsupported OGR field type: ''
                 @ to_string_int (field_type_tag (OgrField_type ogrField)))))"

fun feature_values ::
  "FieldMap \<Rightarrow> OgrFieldMap \<Rightarrow> int \<Rightarrow> OGRFeature \<Rightarrow> string list \<Rightarrow> exn + string list" where
  "feature_values tableFields ogrFields pulled ogrFeature [] = Inr []"
| "feature_values tableFields ogrFields pulled ogrFeature (insertColumn # rest) =
     (case (if pgTypeName (FieldMap_at tableFields insertColumn) = ''geometry''
            then encode_geometry pulled ogrFeature
            else field_value ogrFields ogrFeature insertColumn) of
        Inl e \<Rightarrow> Inl e
      | Inr v \<Rightarrow>
          (case feature_values tableFields ogrFields pulled ogrFeature rest of
             Inl e \<Rightarrow> Inl e
           | Inr vs \<Rightarrow> Inr (v # vs)))"

text \<open>
  The loop of lines 201 to 263 over the features the cursor yields; the last call of
  \<^verbatim>\<open>GetNextFeature\<close> returns null.
\<close>

fun stream_features ::
  "Env \<Rightarrow> string \<Rightarrow> FieldMap \<Rightarrow> OgrFieldMap \<Rightarrow> string list \<Rightarrow> OGRFeature list \<Rightarrow> int \<Rightarrow> pstate
     \<Rightarrow> (exn + int) \<times> pstate" where
  "stream_features env stmt tableFields ogrFields cols [] pulled st =
     (Inr pulled, emit OgrGetNextFeature st)"
| "stream_features env stmt tableFields ogrFields cols (ogrFeature # rest) pulled st =
     (let st1 = emit OgrGetNextFeature st in
      case feature_values tableFields ogrFields pulled ogrFeature cols of
        Inl e \<Rightarrow> (Inl e, st1)
      | Inr strValues \<Rightarrow>
          (case execPrepared env (events st1) stmt strValues of
             Some m \<Rightarrow> (Inl (DbError m), emit (DbExecPrepared stmt strValues) st1)
           | None \<Rightarrow>
               stream_features env stmt tableFields ogrFields cols rest (pulled + 1)
                 (emit (DbExecPrepared stmt strValues) st1)))"

definition stream ::
  "Env \<Rightarrow> OGRFeature list \<Rightarrow> FieldMap \<Rightarrow> OgrFieldMap \<Rightarrow> columns \<Rightarrow> pstate \<Rightarrow> (exn + int) \<times> pstate" where
  "stream env features tableFields ogrFields cols st =
     (let query = insertQuery (tempTableName (job st)) tableFields (insertColumns cols);
          st1 = emit (DbPrepare (insertStmtName (job st)) query (length (insertColumns cols))) st
      in case prepare env (events st) (insertStmtName (job st)) query (length (insertColumns cols)) of
           Some m \<Rightarrow> (Inl (DbError m), st1)
         | None \<Rightarrow>
             stream_features env (insertStmtName (job st)) tableFields ogrFields (insertColumns cols)
               features 0 st1)"

subsection \<open>Differential reconciliation (lines 264 to 328)\<close>

definition insertMissingStmt :: "Layer \<Rightarrow> string \<Rightarrow> columns \<Rightarrow> string" where
  "insertMissingStmt layer tmp cols =
     ''insert into \"'' @ target_table_schema layer @ ''\".\"'' @ target_table_name layer @ ''\" ''
     @ '' ( \"'' @ join (insertColumns cols) ''\", \"'' @ ''\") ''
     @ '' select \"'' @ join (insertColumns cols) ''\", \"'' @ ''\" ''
     @ '' from \"'' @ tmp @ ''\"''
     @ '' where (\"'' @ join (primaryKeyColumns cols) ''\", \"'' @ ''\") not in (''
     @ '' select \"'' @ join (primaryKeyColumns cols) ''\",\"'' @ ''\" ''
     @ ''       from \"'' @ target_table_schema layer @ ''\".\"'' @ target_table_name layer @ ''\"''
     @ '')''"

definition deleteRemovedStmt :: "Layer \<Rightarrow> string \<Rightarrow> columns \<Rightarrow> string" where
  "deleteRemovedStmt layer tmp cols =
     ''delete from \"'' @ target_table_schema layer @ ''\".\"'' @ target_table_name layer @ ''\" ''
     @ '' where (\"'' @ join (primaryKeyColumns cols) ''\", \"'' @ ''\") not in (''
     @ '' select \"'' @ join (primaryKeyColumns cols) ''\",\"'' @ ''\" ''
     @ ''       from \"'' @ tmp @ ''\"''
     @ '')''"

text \<open>One statement through \<^verbatim>\<open>transaction->exec\<close>, and \<^verbatim>\<open>std::atoi(PQcmdTuples(...))\<close>.\<close>

definition exec_count :: "Env \<Rightarrow> string \<Rightarrow> pstate \<Rightarrow> (exn + int) \<times> pstate" where
  "exec_count env stmt st =
     (case exec env (events st) stmt of
        Inl m \<Rightarrow> (Inl (DbError m), emit (DbExec stmt) st)
      | Inr tuples \<Rightarrow> (Inr (atoi tuples), emit (DbExec stmt) st))"

definition reconcile :: "Env \<Rightarrow> Layer \<Rightarrow> columns \<Rightarrow> int \<Rightarrow> pstate \<Rightarrow> exn option \<times> pstate" where
  "reconcile env layer cols pulled st =
     (let tmp = tempTableName (job st);
          st1 = mutate (setStatistics pulled 0 0 0) st
      in case exec_count env (updateStmt layer tmp (updateColumns cols) (primaryKeyColumns cols)) st1 of
           (Inl e, st2) \<Rightarrow> (Some e, st2)
         | (Inr updated, st2) \<Rightarrow>
             (case exec_count env (insertMissingStmt layer tmp cols) st2 of
                (Inl e, st3) \<Rightarrow> (Some e, st3)
              | (Inr created, st3) \<Rightarrow>
                  (case exec_count env (deleteRemovedStmt layer tmp cols) st3 of
                     (Inl e, st4) \<Rightarrow> (Some e, st4)
                   | (Inr deleted, st4) \<Rightarrow>
                       (None, mutate (setStatistics pulled created updated deleted)
                                (mutate (setStatus FINISHED) st4)))))"

subsection \<open>\<^verbatim>\<open>Worker::pull\<close>\<close>

text \<open>
  The function ends where the source does, at line 336. No commit is written there: the
  transaction object, which is not among the sources, ends the transaction when it goes
  out of scope, and that is not part of the model.
\<close>

text \<open>
  The features the cursor yields: all of the layer's when no filter was set (line 72 skips
  an empty one), those the filter lets through otherwise.
\<close>

definition source_features :: "OGRLayer \<Rightarrow> Job \<Rightarrow> OGRFeature list" where
  "source_features ogrLayer j =
     GetFeatures ogrLayer (if getFilter j = [] then None else Some (getFilter j))"

definition transaction ::
  "Env \<Rightarrow> Layer \<Rightarrow> OGRLayer \<Rightarrow> OgrFieldMap \<Rightarrow> pstate \<Rightarrow> exn option \<times> pstate" where
  "transaction env layer ogrLayer ogrFields st =
     (case introspect env layer ogrFields st of
        (Inl e, st1) \<Rightarrow> (Some e, st1)
      | (Inr (tableFields, cols), st1) \<Rightarrow>
          (case stream env (source_features ogrLayer (job st)) tableFields ogrFields cols st1 of
             (Inl e, st2) \<Rightarrow> (Some e, st2)
           | (Inr pulled, st2) \<Rightarrow> reconcile env layer cols pulled st2))"

definition no_transaction_message :: string where
  "no_transaction_message = ''Could not start a database transaction''"

definition pull :: "Env \<Rightarrow> pstate \<Rightarrow> exn option \<times> pstate" where
  "pull env st =
     (case getLayer env (getLayerName (job st)) of
        Inl e \<Rightarrow> (Some e, st)
      | Inr layer \<Rightarrow>
          (case open_source env layer st of
             (Inl e, st1) \<Rightarrow> (Some e, st1)
           | (Inr ogrLayer, st1) \<Rightarrow>
               (case check_geom_field_count env ogrLayer of
                  Some e \<Rightarrow> (Some e, st1)
                | None \<Rightarrow>
                    let ogrFields = collect_fields (GetFieldDefns ogrLayer) 0 Map.empty;
                        st2 = emit DbGetTransaction st1
                    in if getTransaction env (events st1) then
                         transaction env layer ogrLayer ogrFields st2
                       else
                         (None, mutate (setMessage no_transaction_message)
                                  (mutate (setStatus FAILED) st2)))))"

section \<open>The worker loop\<close>

text \<open>
  Lines 358 to 367: the loop that waits for a database connection. It has no bound, so it
  is a partial function: \<open>None\<close> when the connection never comes back.
\<close>

partial_function (option) reconnect_loop :: "Env \<Rightarrow> nat \<Rightarrow> pstate \<Rightarrow> pstate option" where
  "reconnect_loop env reconnectAttempts st =
     (if reconnect env (events st) then Some (emit DbReconnect st)
      else reconnect_loop env (reconnectAttempts + 1)
             (if reconnectAttempts = 0
              then mutate (setMessage ''Waiting to aquire a database connection'') (emit DbReconnect st)
              else emit DbReconnect st))"

text \<open>The \<^verbatim>\<open>try\<close> block of lines 345 to 370 for a job the queue has delivered.\<close>

definition try_block :: "Env \<Rightarrow> pstate \<Rightarrow> (exn option \<times> pstate) option" where
  "try_block env st =
     (case reconnect_loop env 0 (mutate (setStatus IN_PROCESS) st) of
        None \<Rightarrow> None
      | Some st1 \<Rightarrow> Some (pull env (mutate (setMessage []) st1)))"

text \<open>
  The handlers of lines 371 to 389, in their order. The result says whether an exception
  leaves the loop.
\<close>

definition failed :: "string \<Rightarrow> pstate \<Rightarrow> pstate" where
  "failed m st = mutate (setMessage m) (mutate (setStatus FAILED) st)"

fun catch :: "exn option \<times> pstate \<Rightarrow> exn option \<times> pstate" where
  "catch (None, st) = (None, st)"
| "catch (Some (DbError m), st) = (None, failed m st)"
| "catch (Some (WorkerError m), st) = (None, failed m st)"
| "catch (Some (RuntimeError m), st) = (Some (RuntimeError m), failed m st)"
| "catch (Some (OtherException m), st) = (Some (OtherException m), st)"

definition run_job :: "Env \<Rightarrow> pstate \<Rightarrow> (exn option \<times> pstate) option" where
  "run_job env st = map_option catch (try_block env st)"

text \<open>
  \<^verbatim>\<open>Worker::run\<close> on the jobs the queue delivers before it is closed. The result is the
  exception that left the loop, if any, the jobs as the worker left them, and the events.
\<close>

fun run :: "Env \<Rightarrow> Job list \<Rightarrow> event list \<Rightarrow> (exn option \<times> Job list \<times> event list) option" where
  "run env [] evs = Some (None, [], evs)"
| "run env (j # queue) evs =
     (case run_job env \<lparr>job = j, events = evs\<rparr> of
        None \<Rightarrow> None
      | Some (Some e, st) \<Rightarrow> Some (Some e, [job st], events st)
      | Some (None, st) \<Rightarrow>
          (case run env queue (events st) of
             None \<Rightarrow> None
           | Some (r, done_jobs, evs') \<Rightarrow> Some (r, job st # done_jobs, evs')))"

section \<open>Reading the events\<close>

text \<open>The calls on the database, the reads of a feature, the filters applied to the
  source, and the job record as an observer sees it after each mutation.\<close>

fun is_db_event :: "event \<Rightarrow> bool" where
  "is_db_event DbReconnect = True"
| "is_db_event DbGetTransaction = True"
| "is_db_event (DbCreateTempTable s t n) = True"
| "is_db_event (DbGetTableFields s t) = True"
| "is_db_event (DbPrepare n q k) = True"
| "is_db_event (DbExecPrepared n vs) = True"
| "is_db_event (DbExec q) = True"
| "is_db_event e = False"

fun is_filter_event :: "event \<Rightarrow> bool" where
  "is_filter_event (OgrSetAttributeFilter f) = True"
| "is_filter_event e = False"

fun is_read_event :: "event \<Rightarrow> bool" where
  "is_read_event OgrGetNextFeature = True"
| "is_read_event e = False"

fun snapshots :: "event list \<Rightarrow> Job list" where
  "snapshots [] = []"
| "snapshots (JobChanged j # es) = j # snapshots es"
| "snapshots (e # es) = snapshots es"

text \<open>
  Bookkeeping for the proofs: a phase appends events of a given kind. Inside
  \<^verbatim>\<open>Worker::pull\<close> no event is a reconnect, and a filter is set only when it is the job's
  and not empty; before the reconciliation no event is a mutation of the job.
\<close>

definition grows :: "(event \<Rightarrow> bool) \<Rightarrow> event list \<Rightarrow> event list \<Rightarrow> bool" where
  "grows ok evs evs' = (\<exists>new. evs' = evs @ new \<and> list_all ok new)"

fun pull_event :: "string \<Rightarrow> event \<Rightarrow> bool" where
  "pull_event flt (OgrSetAttributeFilter f) = (f = flt \<and> flt \<noteq> [])"
| "pull_event flt DbReconnect = False"
| "pull_event flt e = True"

fun quiet_event :: "string \<Rightarrow> event \<Rightarrow> bool" where
  "quiet_event flt (JobChanged j) = False"
| "quiet_event flt e = pull_event flt e"

section \<open>What the claims speak of\<close>

text \<open>
  To say what a rendering of a REAL is worth: the value of a finite double as a rational
  number, and the rational number that a decimal text of the form \<^verbatim>\<open>[-]digits.digits\<close>
  stands for.
\<close>

definition finite_value :: "bool \<Rightarrow> nat \<Rightarrow> int \<Rightarrow> rat" where
  "finite_value sg m e =
     (if sg then - 1 else 1) * of_nat m * (if 0 \<le> e then 2 ^ nat e else 1 / 2 ^ nat (- e))"

definition decimal_value :: "string \<Rightarrow> rat option" where
  "decimal_value s =
     (let neg = (s \<noteq> [] \<and> hd s = CHR ''-'');
          body = (if neg then tl s else s);
          ip = takeWhile is_digit body
      in case dropWhile is_digit body of
           [] \<Rightarrow> None
         | c # fp \<Rightarrow>
             if c = CHR ''.'' \<and> ip \<noteq> [] \<and> fp \<noteq> [] \<and> list_all is_digit fp
             then Some ((if neg then - 1 else 1)
                        * (of_nat (digits_value 0 ip) + of_nat (digits_value 0 fp) / 10 ^ length fp))
             else None)"




definition reaches_reconcile ::
  "Env \<Rightarrow> pstate \<Rightarrow> Layer \<Rightarrow> FieldMap \<Rightarrow> columns \<Rightarrow> int \<Rightarrow> pstate \<Rightarrow> bool" where
  "reaches_reconcile env st layer tableFields cols pulled st3 =
     (\<exists>ogrLayer st1 st2.
        getLayer env (getLayerName (job st)) = Inr layer \<and>
        open_source env layer st = (Inr ogrLayer, st1) \<and>
        check_geom_field_count env ogrLayer = None \<and>
        getTransaction env (events st1) \<and>
        introspect env layer (collect_fields (GetFieldDefns ogrLayer) 0 Map.empty)
          (emit DbGetTransaction st1) = (Inr (tableFields, cols), st2) \<and>
        stream env (source_features ogrLayer (job st)) tableFields
          (collect_fields (GetFieldDefns ogrLayer) 0 Map.empty) cols st2 = (Inr pulled, st3))"

text \<open>A text occurs in another.\<close>

definition occurs_in :: "string \<Rightarrow> string \<Rightarrow> bool" where
  "occurs_in pat q = list_ex (\<lambda>k. take (length pat) (drop k q) = pat) [0..<Suc (length q)]"

section \<open>A small world to run the worker in\<close>

text \<open>
  A layer \<open>roads\<close> with the source fields \<open>ID\<close> (integer) and \<open>Name\<close> (string) and one
  feature; a target table with the columns \<open>geom\<close> (geometry), \<open>id\<close> (integer, primary
  key) and \<open>name\<close> (text); a database that accepts every call and reports one affected
  row for every statement; a source that refuses the filter \<open>nope =\<close>.
\<close>

definition demo_layer :: Layer where
  "demo_layer = \<lparr>layer_name = ''roads'', source = ''/data/roads.shp'', source_layer = ''roads'',
     target_table_schema = ''public'', target_table_name = ''roads''\<rparr>"

definition demo_feature :: OGRFeature where
  "demo_feature = \<lparr>GetFieldAsString = (\<lambda>i. ''A1''), GetFieldAsInteger = (\<lambda>i. 7),
     GetFieldAsDouble = (\<lambda>i. Finite False 3 (- 1)), CPLMalloc_ok = True,
     exportToWkb = Some [CHR 0x01, CHR 0xAB], CPLBinaryToHex_ok = True\<rparr>"

definition demo_fields :: FieldMap where
  "demo_fields =
     [(''geom'', \<lparr>field_name = ''geom'', pgTypeName = ''geometry'', isPrimaryKey = False\<rparr>),
      (''id'', \<lparr>field_name = ''id'', pgTypeName = ''integer'', isPrimaryKey = True\<rparr>),
      (''name'', \<lparr>field_name = ''name'', pgTypeName = ''text'', isPrimaryKey = False\<rparr>)]"

definition demo_ogr_layer :: OGRLayer where
  "demo_ogr_layer = \<lparr>SetAttributeFilter = (\<lambda>f. f \<noteq> ''nope =''),
     CPLGetLastErrorMsg = (\<lambda>f. Some ''syntax error''), GetGeomFieldCount = 1,
     GetFieldDefns = [\<lparr>GetNameRef = ''ID'', GetType = OFTInteger\<rparr>,
                      \<lparr>GetNameRef = ''Name'', GetType = OFTString\<rparr>],
     GetFeatures = (\<lambda>flt. [demo_feature])\<rparr>"

definition demo_dataset :: OGRDataSource where
  "demo_dataset = \<lparr>GetLayerByName = (\<lambda>n. Some demo_ogr_layer)\<rparr>"

definition demo_env :: Env where
  "demo_env = \<lparr>GDAL_VERSION_MAJOR = 2, getLayer = (\<lambda>n. Inr demo_layer),
     Open = (\<lambda>s. Some demo_dataset),
     reconnect = (\<lambda>evs. True), getTransaction = (\<lambda>evs. True),
     createTempTable = (\<lambda>evs s t n. None), getTableFields = (\<lambda>evs s t. Inr demo_fields),
     prepare = (\<lambda>evs n q k. None), execPrepared = (\<lambda>evs n vs. None),
     exec = (\<lambda>evs q. Inr ''1'')\<rparr>"

definition demo_job :: Job where
  "demo_job = \<lparr>getId = ''42'', getLayerName = ''roads'', getFilter = [], getStatus = IN_PROCESS,
     getMessage = [], numPulled = 0, numCreated = 0, numUpdated = 0, numDeleted = 0\<rparr>"

definition demo_state :: pstate where
  "demo_state = \<lparr>job = demo_job, events = []\<rparr>"

text \<open>Variations of that world: another source layer behind the same dataset.\<close>

definition demo_env_source :: "OGRLayer \<Rightarrow> Env" where
  "demo_env_source ogrLayer = demo_env\<lparr>Open := (\<lambda>s. Some \<lparr>GetLayerByName = (\<lambda>n. Some ogrLayer)\<rparr>)\<rparr>"

definition demo_two_geometries :: OGRLayer where
  "demo_two_geometries = demo_ogr_layer\<lparr>GetGeomFieldCount := 2\<rparr>"

definition demo_env_two_geometries :: "nat \<Rightarrow> Env" where
  "demo_env_two_geometries gdal = (demo_env_source demo_two_geometries)\<lparr>GDAL_VERSION_MAJOR := gdal\<rparr>"


text \<open>
  A configuration whose \<^verbatim>\<open>getLayer\<close> throws, a job as the queue delivers it, and the state of
  that job when the pull begins: set to IN_PROCESS, connected at the first attempt, message
  cleared.
\<close>

definition demo_env_throwing :: "exn \<Rightarrow> Env" where
  "demo_env_throwing e = demo_env\<lparr>getLayer := (\<lambda>n. Inl e)\<rparr>"

definition demo_queued :: pstate where
  "demo_queued = \<lparr>job = demo_job\<lparr>getStatus := QUEUED\<rparr>, events = []\<rparr>"

definition demo_in_process :: pstate where
  "demo_in_process = \<lparr>job = demo_job, events = [JobChanged demo_job, DbReconnect, JobChanged demo_job]\<rparr>"

text \<open>Features whose geometry cannot be encoded, and a layer that yields given features.\<close>

definition demo_with_features :: "OGRFeature list \<Rightarrow> OGRLayer" where
  "demo_with_features fs = demo_ogr_layer\<lparr>GetFeatures := (\<lambda>flt. fs)\<rparr>"

definition demo_bad_alloc :: OGRFeature where
  "demo_bad_alloc = demo_feature\<lparr>CPLMalloc_ok := False\<rparr>"

definition demo_bad_export :: OGRFeature where
  "demo_bad_export = demo_feature\<lparr>exportToWkb := None\<rparr>"




text \<open>
  A world whose target table has its one column \<open>id\<close> as primary key, and whose database
  refuses, as PostgreSQL does, a statement in which \<^verbatim>\<open>set\<close> is followed by \<^verbatim>\<open>from\<close>.
\<close>

definition demo_only_key :: FieldMap where
  "demo_only_key = [(''id'', \<lparr>field_name = ''id'', pgTypeName = ''integer'', isPrimaryKey = True\<rparr>)]"

definition demo_env_only_key :: Env where
  "demo_env_only_key =
     demo_env\<lparr>getTableFields := (\<lambda>evs s t. Inr demo_only_key),
               exec := (\<lambda>evs q. if occurs_in '' set  from '' q
                                  then Inl ''syntax error at or near \"from\"'' else Inr ''0'')\<rparr>"

definition demo_only_key_columns :: columns where
  "demo_only_key_columns = \<lparr>primaryKeyColumns = [''id''], geometryColumn = [],
      insertColumns = [''id''], updateColumns = []\<rparr>"

definition demo_only_key_streamed :: pstate where
  "demo_only_key_streamed = \<lparr>job = demo_job,
     events = [OgrOpen ''/data/roads.shp'', OgrGetLayerByName ''roads'', OgrResetReading,
       DbGetTransaction, DbCreateTempTable ''public'' ''roads'' ''batyr_42'',
       DbGetTableFields ''public'' ''roads'',
       DbPrepare ''batyr_insert42'' ''insert into \"batyr_42\" (\"id\") values ($1::integer)'' 1,
       OgrGetNextFeature, DbExecPrepared ''batyr_insert42'' [''7''],
       OgrGetNextFeature]\<rparr>"

section \<open>Properties of the phases\<close>

lemma events_emit [simp]: "events (emit e st) = events st @ [e]"
  by (simp add: emit_def)

lemma job_emit [simp]: "job (emit e st) = job st"
  by (simp add: emit_def)

lemma events_mutate [simp]: "events (mutate f st) = events st @ [JobChanged (f (job st))]"
  by (simp add: mutate_def)

lemma job_mutate [simp]: "job (mutate f st) = f (job st)"
  by (simp add: mutate_def)

lemma snapshots_append [simp]: "snapshots (xs @ ys) = snapshots xs @ snapshots ys"
  by (induction xs rule: snapshots.induct) simp_all

lemma grows_refl [simp]: "grows ok evs evs"
  by (simp add: grows_def)

lemma grows_step: "grows ok a b \<Longrightarrow> ok e \<Longrightarrow> grows ok a (b @ [e])"
  by (auto simp: grows_def)

lemma grows_trans: "grows ok a b \<Longrightarrow> grows ok b c \<Longrightarrow> grows ok a c"
  by (auto simp: grows_def)

lemma grows_weaken: "grows ok a b \<Longrightarrow> (\<And>e. ok e \<Longrightarrow> ok' e) \<Longrightarrow> grows ok' a b"
  by (auto simp: grows_def list_all_iff)

lemma quiet_snapshots: "list_all (quiet_event flt) new \<Longrightarrow> snapshots new = []"
  by (induction new rule: snapshots.induct) simp_all

lemma grows_quiet_snapshots: "grows (quiet_event flt) a b \<Longrightarrow> snapshots b = snapshots a"
  by (auto simp: grows_def quiet_snapshots)

lemma quiet_pull_event: "quiet_event flt e \<Longrightarrow> pull_event flt e"
  by (cases e) simp_all

lemma open_source_frame:
  "open_source env layer st = (r, st') \<Longrightarrow>
     job st' = job st \<and> grows (quiet_event (getFilter (job st))) (events st) (events st')"
  by (auto simp: open_source_def Let_def grows_def split: option.splits if_splits)

lemma introspect_frame:
  "introspect env layer ofs st = (r, st') \<Longrightarrow>
     job st' = job st \<and> grows (quiet_event flt) (events st) (events st')"
  by (auto simp: introspect_def Let_def grows_def split: option.splits sum.splits)

lemma stream_features_frame:
  "stream_features env stmt tf ofs cols fs n st = (r, st') \<Longrightarrow>
     job st' = job st \<and> grows (quiet_event flt) (events st) (events st')"
proof (induction fs arbitrary: n st)
  case Nil
  then show ?case by (auto simp: grows_def)
next
  case (Cons f fs)
  let ?st1 = "emit OgrGetNextFeature st"
  show ?case
  proof (cases "feature_values tf ofs n f cols")
    case (Inl e)
    with Cons.prems show ?thesis by (auto simp: Let_def grows_def)
  next
    case (Inr vs)
    let ?st2 = "emit (DbExecPrepared stmt vs) ?st1"
    have b: "grows (quiet_event flt) (events st) (events ?st2)"
      by (simp add: grows_def)
    show ?thesis
    proof (cases "execPrepared env (events ?st1) stmt vs")
      case None
      with Inr Cons.prems have "stream_features env stmt tf ofs cols fs (n + 1) ?st2 = (r, st')"
        by (simp add: Let_def)
      from Cons.IH[OF this] b show ?thesis by (auto intro: grows_trans)
    next
      case (Some m)
      with Inr Cons.prems b show ?thesis by (auto simp: Let_def)
    qed
  qed
qed

lemma stream_frame:
  assumes "stream env fs tf ofs cols st = (r, st')"
  shows "job st' = job st \<and> grows (quiet_event flt) (events st) (events st')"
proof -
  let ?q = "insertQuery (tempTableName (job st)) tf (insertColumns cols)"
  let ?st1 = "emit (DbPrepare (insertStmtName (job st)) ?q (length (insertColumns cols))) st"
  have b: "grows (quiet_event flt) (events st) (events ?st1)" by (simp add: grows_def)
  show ?thesis
  proof (cases "prepare env (events st) (insertStmtName (job st)) ?q (length (insertColumns cols))")
    case None
    with assms have "stream_features env (insertStmtName (job st)) tf ofs (insertColumns cols) fs 0 ?st1 = (r, st')"
      by (simp add: stream_def Let_def)
    from stream_features_frame[OF this] b show ?thesis by (auto intro: grows_trans)
  next
    case (Some m)
    with assms b show ?thesis by (auto simp: stream_def Let_def)
  qed
qed

lemma exec_count_frame:
  "exec_count env q st = (r, st') \<Longrightarrow> st' = emit (DbExec q) st"
  by (auto simp: exec_count_def split: sum.splits)

text \<open>
  What the reconciliation leaves behind: when it completes, three mutations of the job
  around the three statements; when a statement fails, the first mutation only.
\<close>

lemma reconcile_None:
  assumes "reconcile env layer cols n st = (None, st')"
  shows "\<exists>tu tc td.
     exec env (events st @ [JobChanged (setStatistics n 0 0 0 (job st))])
        (updateStmt layer (tempTableName (job st)) (updateColumns cols) (primaryKeyColumns cols)) = Inr tu \<and>
     exec env (events st @ [JobChanged (setStatistics n 0 0 0 (job st)),
          DbExec (updateStmt layer (tempTableName (job st)) (updateColumns cols) (primaryKeyColumns cols))])
        (insertMissingStmt layer (tempTableName (job st)) cols) = Inr tc \<and>
     exec env (events st @ [JobChanged (setStatistics n 0 0 0 (job st)),
          DbExec (updateStmt layer (tempTableName (job st)) (updateColumns cols) (primaryKeyColumns cols)),
          DbExec (insertMissingStmt layer (tempTableName (job st)) cols)])
        (deleteRemovedStmt layer (tempTableName (job st)) cols) = Inr td \<and>
     job st' = setStatistics n (atoi tc) (atoi tu) (atoi td) (setStatus FINISHED (setStatistics n 0 0 0 (job st))) \<and>
     events st' = events st @
       [JobChanged (setStatistics n 0 0 0 (job st)),
        DbExec (updateStmt layer (tempTableName (job st)) (updateColumns cols) (primaryKeyColumns cols)),
        DbExec (insertMissingStmt layer (tempTableName (job st)) cols),
        DbExec (deleteRemovedStmt layer (tempTableName (job st)) cols),
        JobChanged (setStatus FINISHED (setStatistics n 0 0 0 (job st))),
        JobChanged (job st')]"
  using assms
  by (auto simp: reconcile_def Let_def exec_count_def split: sum.splits prod.splits)

lemma reconcile_Some:
  assumes "reconcile env layer cols n st = (Some e, st')"
  shows "(\<exists>m. e = DbError m) \<and> job st' = setStatistics n 0 0 0 (job st) \<and>
     (\<exists>new. events st' = events st @ JobChanged (setStatistics n 0 0 0 (job st)) # new \<and>
        list_all (quiet_event flt) new \<and> list_all (pull_event flt) new)"
  using assms
  by (auto simp: reconcile_def Let_def exec_count_def split: sum.splits prod.splits)


lemma pull_cases [consumes 1, case_names config source geometry no_transaction introspect stream reconcile]:
  assumes "pull env st = (r, st')"
  obtains
    e where "getLayer env (getLayerName (job st)) = Inl e" "r = Some e" "st' = st"
  | layer e where "getLayer env (getLayerName (job st)) = Inr layer"
      "open_source env layer st = (Inl e, st')" "r = Some e"
  | layer ol e where "getLayer env (getLayerName (job st)) = Inr layer"
      "open_source env layer st = (Inr ol, st')" "check_geom_field_count env ol = Some e" "r = Some e"
  | layer ol st1 where "getLayer env (getLayerName (job st)) = Inr layer"
      "open_source env layer st = (Inr ol, st1)" "check_geom_field_count env ol = None"
      "\<not> getTransaction env (events st1)" "r = None"
      "st' = mutate (setMessage no_transaction_message) (mutate (setStatus FAILED) (emit DbGetTransaction st1))"
  | layer ol st1 e where "getLayer env (getLayerName (job st)) = Inr layer"
      "open_source env layer st = (Inr ol, st1)" "check_geom_field_count env ol = None"
      "getTransaction env (events st1)"
      "introspect env layer (collect_fields (GetFieldDefns ol) 0 Map.empty) (emit DbGetTransaction st1) = (Inl e, st')"
      "r = Some e"
  | layer ol st1 tf cols st2 e where "getLayer env (getLayerName (job st)) = Inr layer"
      "open_source env layer st = (Inr ol, st1)" "check_geom_field_count env ol = None"
      "getTransaction env (events st1)"
      "introspect env layer (collect_fields (GetFieldDefns ol) 0 Map.empty) (emit DbGetTransaction st1) = (Inr (tf, cols), st2)"
      "stream env (source_features ol (job st)) tf (collect_fields (GetFieldDefns ol) 0 Map.empty) cols st2 = (Inl e, st')"
      "r = Some e"
  | layer ol st1 tf cols st2 n st3 where "getLayer env (getLayerName (job st)) = Inr layer"
      "open_source env layer st = (Inr ol, st1)" "check_geom_field_count env ol = None"
      "getTransaction env (events st1)"
      "introspect env layer (collect_fields (GetFieldDefns ol) 0 Map.empty) (emit DbGetTransaction st1) = (Inr (tf, cols), st2)"
      "stream env (source_features ol (job st)) tf (collect_fields (GetFieldDefns ol) 0 Map.empty) cols st2 = (Inr n, st3)"
      "reconcile env layer cols n st3 = (r, st')"
proof (cases "getLayer env (getLayerName (job st))")
  case (Inl e)
  with assms have "r = Some e" "st' = st" by (simp_all add: pull_def)
  with Inl show thesis by (rule that(1))
next
  case layer: (Inr layer)
  obtain r1 st1 where os: "open_source env layer st = (r1, st1)"
    by (cases "open_source env layer st")
  show thesis
  proof (cases r1)
    case (Inl e)
    with assms layer os have "r = Some e" "st1 = st'" by (simp_all add: pull_def)
    with layer os Inl show thesis by (intro that(2)) simp_all
  next
    case ol: (Inr ol)
    note os' = os[unfolded ol]
    show thesis
    proof (cases "check_geom_field_count env ol")
      case (Some e)
      with assms layer os' have "r = Some e" "st1 = st'" by (simp_all add: pull_def)
      with layer os' Some show thesis by (intro that(3)) simp_all
    next
      case geom: None
      show thesis
      proof (cases "getTransaction env (events st1)")
        case False
        with assms layer os' geom have "r = None"
          "st' = mutate (setMessage no_transaction_message) (mutate (setStatus FAILED) (emit DbGetTransaction st1))"
          by (simp_all add: pull_def Let_def)
        with layer os' geom False show thesis by (intro that(4)) simp_all
      next
        case tr: True
        obtain r2 st2 where intro: "introspect env layer (collect_fields (GetFieldDefns ol) 0 Map.empty)
            (emit DbGetTransaction st1) = (r2, st2)"
          by (cases "introspect env layer (collect_fields (GetFieldDefns ol) 0 Map.empty) (emit DbGetTransaction st1)")
        from assms layer os' geom tr
        have tx: "transaction env layer ol (collect_fields (GetFieldDefns ol) 0 Map.empty)
            (emit DbGetTransaction st1) = (r, st')"
          by (simp add: pull_def Let_def)
        show thesis
        proof (cases r2)
          case (Inl e)
          with tx intro have "r = Some e" "st2 = st'" by (simp_all add: transaction_def)
          with layer os' geom tr intro Inl show thesis by (intro that(5)) simp_all
        next
          case (Inr p)
          obtain tf cols where p: "p = (tf, cols)" by (cases p)
          note intro' = intro[unfolded Inr p]
          have j1: "job st1 = job st" using open_source_frame[OF os'] by simp
          obtain r3 st3 where str: "stream env (source_features ol (job st)) tf
              (collect_fields (GetFieldDefns ol) 0 Map.empty) cols st2 = (r3, st3)"
            by (cases "stream env (source_features ol (job st)) tf (collect_fields (GetFieldDefns ol) 0 Map.empty) cols st2")
          show thesis
          proof (cases r3)
            case (Inl e)
            with tx intro' str j1 have "r = Some e" "st3 = st'"
              by (simp_all add: transaction_def)
            with layer os' geom tr intro' str Inl show thesis by (intro that(6)) simp_all
          next
            case n: (Inr n)
            with tx intro' str j1 have "reconcile env layer cols n st3 = (r, st')"
              by (simp add: transaction_def)
            with layer os' geom tr intro' str n show thesis by (intro that(7)) simp_all
          qed
        qed
      qed
    qed
  qed
qed


lemma grows_pull_event: "grows (quiet_event flt) a b \<Longrightarrow> grows (pull_event flt) a b"
  by (erule grows_weaken) (rule quiet_pull_event)

lemma begin_frame:
  assumes "open_source env layer st = (r, st1)"
  shows "job (emit DbGetTransaction st1) = job st"
    and "grows (quiet_event (getFilter (job st))) (events st) (events (emit DbGetTransaction st1))"
  using open_source_frame[OF assms] by (auto intro: grows_step)

lemma upto_introspect:
  assumes "open_source env layer st = (r1, st1)"
    and "introspect env layer ofs (emit DbGetTransaction st1) = (r2, st2)"
  shows "job st2 = job st"
    and "grows (quiet_event (getFilter (job st))) (events st) (events st2)"
  using begin_frame[OF assms(1)] introspect_frame[OF assms(2), where flt = "getFilter (job st)"]
  by (auto intro: grows_trans)

lemma upto_stream:
  assumes "open_source env layer st = (r1, st1)"
    and "introspect env layer ofs (emit DbGetTransaction st1) = (r2, st2)"
    and "stream env fs tf ofs cols st2 = (r3, st3)"
  shows "job st3 = job st"
    and "grows (quiet_event (getFilter (job st))) (events st) (events st3)"
  using upto_introspect[OF assms(1,2)] stream_frame[OF assms(3), where flt = "getFilter (job st)"]
  by (auto intro: grows_trans)

lemma pull_frame:
  assumes "pull env st = (r, st')"
  shows "grows (pull_event (getFilter (job st))) (events st) (events st')"
  using assms
proof (cases rule: pull_cases)
  case (config e)
  then show ?thesis by simp
next
  case (source layer e)
  from open_source_frame[OF source(2)] show ?thesis by (auto intro: grows_pull_event)
next
  case (geometry layer ol e)
  from open_source_frame[OF geometry(2)] show ?thesis by (auto intro: grows_pull_event)
next
  case (no_transaction layer ol st1)
  from begin_frame(2)[OF no_transaction(2)]
  have "grows (pull_event (getFilter (job st))) (events st) (events (emit DbGetTransaction st1))"
    by (rule grows_pull_event)
  moreover have "grows (pull_event (getFilter (job st))) (events (emit DbGetTransaction st1)) (events st')"
    unfolding no_transaction(6) by (simp add: grows_def)
  ultimately show ?thesis by (rule grows_trans)
next
  case (introspect layer ol st1 e)
  from upto_introspect(2)[OF introspect(2,5)] show ?thesis by (rule grows_pull_event)
next
  case (stream layer ol st1 tf cols st2 e)
  from upto_stream(2)[OF stream(2,5,6)] show ?thesis by (rule grows_pull_event)
next
  case (reconcile layer ol st1 tf cols st2 n st3)
  from upto_stream(2)[OF reconcile(2,5,6)]
  have a: "grows (pull_event (getFilter (job st))) (events st) (events st3)"
    by (rule grows_pull_event)
  have "grows (pull_event (getFilter (job st))) (events st3) (events st')"
  proof (cases r)
    case None
    from reconcile_None[OF reconcile(7)[unfolded None]] show ?thesis
      by (auto simp: grows_def)
  next
    case (Some e)
    from reconcile_Some[OF reconcile(7)[unfolded Some], of "getFilter (job st)"] show ?thesis
      by (auto simp: grows_def)
  qed
  with a show ?thesis by (rule grows_trans)
qed

text \<open>The job record after a pull that throws.\<close>

lemma pull_thrown_job:
  assumes "pull env st = (Some e, st')"
  shows "job st' = job st \<or> (\<exists>n. job st' = setStatistics n 0 0 0 (job st))"
  using assms
proof (cases rule: pull_cases)
  case (config e)
  then show ?thesis by simp
next
  case (source layer e)
  from open_source_frame[OF source(2)] show ?thesis by simp
next
  case (geometry layer ol e)
  from open_source_frame[OF geometry(2)] show ?thesis by simp
next
  case (no_transaction layer ol st1)
  then show ?thesis by simp
next
  case (introspect layer ol st1 e)
  from upto_introspect(1)[OF introspect(2,5)] show ?thesis by simp
next
  case (stream layer ol st1 tf cols st2 e)
  from upto_stream(1)[OF stream(2,5,6)] show ?thesis by simp
next
  case (reconcile layer ol st1 tf cols st2 n st3)
  from upto_stream(1)[OF reconcile(2,5,6)] have "job st3 = job st" .
  with reconcile_Some[OF reconcile(7)] show ?thesis by auto
qed

lemma pull_thrown_status:
  assumes "pull env st = (Some e, st')"
  shows "getStatus (job st') = getStatus (job st) \<and> getMessage (job st') = getMessage (job st)"
  using pull_thrown_job[OF assms] by (auto simp: setStatistics_def)

text \<open>A pull that ends FINISHED went through every phase.\<close>

lemma pull_FINISHED:
  assumes "pull env st = (None, st')" and "getStatus (job st') = FINISHED"
  obtains layer ol st1 tf cols st2 n st3 where
      "getLayer env (getLayerName (job st)) = Inr layer"
      "open_source env layer st = (Inr ol, st1)" "check_geom_field_count env ol = None"
      "getTransaction env (events st1)"
      "introspect env layer (collect_fields (GetFieldDefns ol) 0 Map.empty) (emit DbGetTransaction st1) = (Inr (tf, cols), st2)"
      "stream env (source_features ol (job st)) tf (collect_fields (GetFieldDefns ol) 0 Map.empty) cols st2 = (Inr n, st3)"
      "reconcile env layer cols n st3 = (None, st')"
      "job st3 = job st" "snapshots (events st3) = snapshots (events st)"
  using assms(1)
proof (cases rule: pull_cases)
  case (no_transaction layer ol st1)
  with assms(2) show ?thesis by (simp add: setStatus_def setMessage_def)
next
  case (reconcile layer ol st1 tf cols st2 n st3)
  from upto_stream[OF reconcile(2,5,6)]
  have "job st3 = job st" "grows (quiet_event (getFilter (job st))) (events st) (events st3)" .
  then have "job st3 = job st" "snapshots (events st3) = snapshots (events st)"
    by (auto dest: grows_quiet_snapshots)
  with reconcile show ?thesis by (intro that) 
qed simp_all


section \<open>The attribute filter\<close>

lemma no_filter_event: "list_all (pull_event []) new \<Longrightarrow> \<not> list_ex is_filter_event new"
  by (induction new rule: snapshots.induct) simp_all

text \<open>
  Claim C7. A job with a non-empty filter that the source driver refuses fails: the pull
  throws \<^verbatim>\<open>WorkerError\<close>, the handler of the worker loop sets the status FAILED, and the
  message holds the driver's last error text, after a colon, when there is one (a full
  stop otherwise), and the filter as it was given. A job with an empty filter has no
  filter set on the source at any point of the pull.
\<close>

theorem invalid_filter_fails:
  "(getLayer env (getLayerName (job st)) = Inr layer \<and> Open env (source layer) = Some ds \<and>
    GetLayerByName ds (source_layer layer) = Some ol \<and> getFilter (job st) \<noteq> [] \<and>
    \<not> SetAttributeFilter ol (getFilter (job st)) \<longrightarrow>
      (\<exists>st'. pull env st =
          (Some (WorkerError (filter_message layer (CPLGetLastErrorMsg ol (getFilter (job st)))
                   (getFilter (job st)))), st') \<and>
         catch (pull env st) =
          (None, failed (filter_message layer (CPLGetLastErrorMsg ol (getFilter (job st)))
                   (getFilter (job st))) st')) \<and>
      getStatus (job (snd (catch (pull env st)))) = FAILED \<and>
      getMessage (job (snd (catch (pull env st)))) =
        ''The given filter for layer \"'' @ layer_name layer @ ''\" is invalid''
        @ (case CPLGetLastErrorMsg ol (getFilter (job st)) of Some e \<Rightarrow> '': '' @ e | None \<Rightarrow> ''.'')
        @ '' The applied filter was [ '' @ getFilter (job st) @ '' ]'') \<and>
   (getFilter (job st) = [] \<longrightarrow>
      (\<exists>new. events (snd (pull env st)) = events st @ new \<and> \<not> list_ex is_filter_event new))"
proof (intro conjI impI)
  assume a: "getLayer env (getLayerName (job st)) = Inr layer \<and> Open env (source layer) = Some ds \<and>
    GetLayerByName ds (source_layer layer) = Some ol \<and> getFilter (job st) \<noteq> [] \<and>
    \<not> SetAttributeFilter ol (getFilter (job st))"
  let ?msg = "filter_message layer (CPLGetLastErrorMsg ol (getFilter (job st))) (getFilter (job st))"
  let ?st' = "emit (OgrSetAttributeFilter (getFilter (job st))) (emit OgrResetReading
      (emit (OgrGetLayerByName (source_layer layer)) (emit (OgrOpen (source layer)) st)))"
  from a have p: "pull env st = (Some (WorkerError ?msg), ?st')"
    by (simp add: pull_def open_source_def Let_def)
  then show "\<exists>st'. pull env st = (Some (WorkerError ?msg), st') \<and>
      catch (pull env st) = (None, failed ?msg st')"
    by simp
  from p show "getStatus (job (snd (catch (pull env st)))) = FAILED"
    by (simp add: failed_def setStatus_def setMessage_def)
  from p show "getMessage (job (snd (catch (pull env st)))) =
        ''The given filter for layer \"'' @ layer_name layer @ ''\" is invalid''
        @ (case CPLGetLastErrorMsg ol (getFilter (job st)) of Some e \<Rightarrow> '': '' @ e | None \<Rightarrow> ''.'')
        @ '' The applied filter was [ '' @ getFilter (job st) @ '' ]''"
    by (simp add: failed_def setStatus_def setMessage_def filter_message_def)
next
  assume e: "getFilter (job st) = []"
  obtain r st' where p: "pull env st = (r, st')" by (cases "pull env st")
  from pull_frame[OF p] e show "\<exists>new. events (snd (pull env st)) = events st @ new \<and> \<not> list_ex is_filter_event new"
    by (auto simp: grows_def p dest: no_filter_event)
qed

theorem invalid_filter_fails_witness:
  "pull demo_env (demo_state\<lparr>job := demo_job\<lparr>getFilter := ''nope =''\<rparr>\<rparr>) =
     (Some (WorkerError
        ''The given filter for layer \"roads\" is invalid: syntax error The applied filter was [ nope = ]''),
      \<lparr>job = demo_job\<lparr>getFilter := ''nope =''\<rparr>,
        events = [OgrOpen ''/data/roads.shp'', OgrGetLayerByName ''roads'', OgrResetReading,
                  OgrSetAttributeFilter ''nope ='']\<rparr>) \<and>
   getStatus (job (snd (catch (pull demo_env (demo_state\<lparr>job := demo_job\<lparr>getFilter := ''nope =''\<rparr>\<rparr>))))) = FAILED \<and>
   getMessage (job (snd (catch (pull demo_env (demo_state\<lparr>job := demo_job\<lparr>getFilter := ''nope =''\<rparr>\<rparr>))))) =
     ''The given filter for layer \"roads\" is invalid: syntax error The applied filter was [ nope = ]'' \<and>
   (\<exists>new. events (snd (pull demo_env demo_state)) = events demo_state @ new \<and> \<not> list_ex is_filter_event new)"
proof -
  let ?st = "demo_state\<lparr>job := demo_job\<lparr>getFilter := ''nope =''\<rparr>\<rparr>"
  have h: "getLayer demo_env (getLayerName (job ?st)) = Inr demo_layer \<and>
      Open demo_env (source demo_layer) = Some demo_dataset \<and>
      GetLayerByName demo_dataset (source_layer demo_layer) = Some demo_ogr_layer \<and>
      getFilter (job ?st) \<noteq> [] \<and> \<not> SetAttributeFilter demo_ogr_layer (getFilter (job ?st))"
    by (simp add: demo_env_def demo_state_def demo_job_def demo_dataset_def demo_ogr_layer_def)
  have e: "getFilter (job demo_state) = []"
    by (simp add: demo_state_def demo_job_def)
  from invalid_filter_fails[of demo_env ?st demo_layer demo_dataset demo_ogr_layer] h
  have 1: "getStatus (job (snd (catch (pull demo_env ?st)))) = FAILED"
    and 2: "getMessage (job (snd (catch (pull demo_env ?st)))) =
        ''The given filter for layer \"'' @ layer_name demo_layer @ ''\" is invalid''
        @ (case CPLGetLastErrorMsg demo_ogr_layer (getFilter (job ?st)) of Some e \<Rightarrow> '': '' @ e | None \<Rightarrow> ''.'')
        @ '' The applied filter was [ '' @ getFilter (job ?st) @ '' ]''"
    and 3: "\<exists>st'. pull demo_env ?st =
          (Some (WorkerError (filter_message demo_layer (CPLGetLastErrorMsg demo_ogr_layer (getFilter (job ?st)))
                   (getFilter (job ?st)))), st')"
    by blast+
  from invalid_filter_fails[of demo_env demo_state] e
  have 4: "\<exists>new. events (snd (pull demo_env demo_state)) = events demo_state @ new \<and> \<not> list_ex is_filter_event new"
    by blast
  have 5: "pull demo_env ?st =
     (Some (WorkerError
        ''The given filter for layer \"roads\" is invalid: syntax error The applied filter was [ nope = ]''),
      \<lparr>job = demo_job\<lparr>getFilter := ''nope =''\<rparr>,
        events = [OgrOpen ''/data/roads.shp'', OgrGetLayerByName ''roads'', OgrResetReading,
                  OgrSetAttributeFilter ''nope ='']\<rparr>)"
    by code_simp
  from 1 2 4 5 show ?thesis
    by (simp add: demo_layer_def demo_ogr_layer_def demo_state_def demo_job_def)
qed

section \<open>The geometry field count\<close>

lemma open_source_no_db:
  "open_source env layer st = (r, st1) \<Longrightarrow>
     job st1 = job st \<and> (\<exists>new. events st1 = events st @ new \<and> \<not> list_ex is_db_event new \<and> \<not> list_ex is_read_event new)"
  by (auto simp: open_source_def Let_def split: option.splits if_splits)

text \<open>
  Claim C5, as stated, fails: in a worker built against GDAL 1 the check of lines 95 to
  101 is compiled out, and a pull from a source that declares two geometry fields
  finishes.
\<close>

theorem geom_count_counterexample:
  "GetGeomFieldCount demo_two_geometries = 2 \<and>
   fst (pull (demo_env_two_geometries 1) demo_state) = None \<and>
   getStatus (job (snd (pull (demo_env_two_geometries 1) demo_state))) = FINISHED"
  by code_simp

text \<open>
  Claim C5, amended. In a worker built against GDAL 2 or later: when the dataset opens,
  the source layer is found and the filter, if any, is accepted, a source whose schema
  declares another number of geometry fields than one makes the pull throw
  \<^verbatim>\<open>WorkerError\<close> with the text "The source provides <n>geometry fields. Currently only
  sources with on geoemtry field are supported"; up to then the job record is untouched,
  no feature has been read and nothing has been asked of the database. A worker built
  against GDAL 1 does not check the number.
\<close>

theorem geom_count_checked:
  "(1 < GDAL_VERSION_MAJOR env \<and> getLayer env (getLayerName (job st)) = Inr layer \<and>
    Open env (source layer) = Some ds \<and> GetLayerByName ds (source_layer layer) = Some ol \<and>
    (getFilter (job st) = [] \<or> SetAttributeFilter ol (getFilter (job st))) \<and>
    GetGeomFieldCount ol \<noteq> 1 \<longrightarrow>
      fst (pull env st) =
        Some (WorkerError (''The source provides '' @ to_string_int (GetGeomFieldCount ol)
          @ ''geometry fields. Currently only sources with on geoemtry field are supported'')) \<and>
      job (snd (pull env st)) = job st \<and>
      (\<exists>new. events (snd (pull env st)) = events st @ new \<and>
         \<not> list_ex is_db_event new \<and> \<not> list_ex is_read_event new)) \<and>
   (GDAL_VERSION_MAJOR env \<le> 1 \<longrightarrow> check_geom_field_count env ol = None)"
proof (intro conjI impI)
  assume a: "1 < GDAL_VERSION_MAJOR env \<and> getLayer env (getLayerName (job st)) = Inr layer \<and>
    Open env (source layer) = Some ds \<and> GetLayerByName ds (source_layer layer) = Some ol \<and>
    (getFilter (job st) = [] \<or> SetAttributeFilter ol (getFilter (job st))) \<and>
    GetGeomFieldCount ol \<noteq> 1"
  obtain r st1 where os: "open_source env layer st = (r, st1)"
    by (cases "open_source env layer st")
  with a have r: "r = Inr ol"
    by (auto simp: open_source_def Let_def split: if_splits)
  from a os r have p: "pull env st =
      (Some (WorkerError (''The source provides '' @ to_string_int (GetGeomFieldCount ol)
          @ ''geometry fields. Currently only sources with on geoemtry field are supported'')), st1)"
    by (simp add: pull_def check_geom_field_count_def)
  then show "fst (pull env st) =
        Some (WorkerError (''The source provides '' @ to_string_int (GetGeomFieldCount ol)
          @ ''geometry fields. Currently only sources with on geoemtry field are supported''))"
    by simp
  from p open_source_no_db[OF os] show "job (snd (pull env st)) = job st" by simp
  from p open_source_no_db[OF os]
  show "\<exists>new. events (snd (pull env st)) = events st @ new \<and>
         \<not> list_ex is_db_event new \<and> \<not> list_ex is_read_event new"
    by simp
next
  assume "GDAL_VERSION_MAJOR env \<le> 1"
  then show "check_geom_field_count env ol = None"
    by (simp add: check_geom_field_count_def)
qed

theorem geom_count_checked_witness:
  "fst (pull (demo_env_two_geometries 2) demo_state) =
     Some (WorkerError ''The source provides 2geometry fields. Currently only sources with on geoemtry field are supported'') \<and>
   job (snd (pull (demo_env_two_geometries 2) demo_state)) = demo_job \<and>
   (\<exists>new. events (snd (pull (demo_env_two_geometries 2) demo_state)) = events demo_state @ new \<and>
         \<not> list_ex is_db_event new \<and> \<not> list_ex is_read_event new) \<and>
   check_geom_field_count (demo_env_two_geometries 1) demo_two_geometries = None"
proof -
  have h: "1 < GDAL_VERSION_MAJOR (demo_env_two_geometries 2) \<and>
      getLayer (demo_env_two_geometries 2) (getLayerName (job demo_state)) = Inr demo_layer \<and>
      Open (demo_env_two_geometries 2) (source demo_layer) = Some \<lparr>GetLayerByName = (\<lambda>n. Some demo_two_geometries)\<rparr> \<and>
      GetLayerByName \<lparr>GetLayerByName = (\<lambda>n. Some demo_two_geometries)\<rparr> (source_layer demo_layer) = Some demo_two_geometries \<and>
      (getFilter (job demo_state) = [] \<or> SetAttributeFilter demo_two_geometries (getFilter (job demo_state))) \<and>
      GetGeomFieldCount demo_two_geometries \<noteq> 1"
    by (simp add: demo_env_two_geometries_def demo_env_source_def demo_env_def demo_state_def demo_job_def
        demo_two_geometries_def demo_ogr_layer_def)
  have g: "GDAL_VERSION_MAJOR (demo_env_two_geometries 1) \<le> 1"
    by (simp add: demo_env_two_geometries_def)
  have n: "to_string_int (GetGeomFieldCount demo_two_geometries) = ''2''"
    by code_simp
  from geom_count_checked[of "demo_env_two_geometries 2" demo_state demo_layer
      "\<lparr>GetLayerByName = (\<lambda>n. Some demo_two_geometries)\<rparr>" demo_two_geometries] h
    geom_count_checked[of "demo_env_two_geometries 1" _ _ _ demo_two_geometries] g n
  show ?thesis
    by (simp add: demo_state_def)
qed


section \<open>Primary-key columns missing in the source\<close>

lemma tolower_idem [simp]: "tolower (tolower c) = tolower c"
proof (cases "65 \<le> (of_char c :: nat) \<and> (of_char c :: nat) \<le> 90")
  case True
  then have "(of_char (char_of ((of_char c :: nat) + 32)) :: nat) = of_char c + 32"
    by (simp add: of_char_of)
  with True show ?thesis by (simp add: tolower_def)
next
  case False
  then show ?thesis by (auto simp: tolower_def)
qed

lemma map_tolower_idem [simp]: "map tolower (map tolower s) = map tolower s"
  by simp



lemma partition_columns_keys:
  "partition_columns j ofs tf cols0 = Inr cols \<Longrightarrow>
     primaryKeyColumns cols = primaryKeyColumns cols0 @ map field_name (filter isPrimaryKey (map snd tf)) \<and>
     updateColumns cols = updateColumns cols0 @ map field_name (filter (\<lambda>f. \<not> isPrimaryKey f) (map snd tf))"
proof (induction tf arbitrary: cols0)
  case Nil
  then show ?case by simp
next
  case (Cons p tf)
  from Cons.prems show ?case
    by (auto simp: Let_def split: if_splits dest!: Cons.IH)
qed







section \<open>The handlers of the worker loop\<close>

lemma reconnect_loop_status:
  assumes "reconnect_loop env n st = Some st'"
  shows "getStatus (job st') = getStatus (job st)"
proof (rule reconnect_loop.raw_induct[where P = "\<lambda>env n st st'. getStatus (job st') = getStatus (job st)", OF _ assms])
  fix loop env n st st'
  assume 1: "\<And>n st w y. loop n st w = Some y \<Longrightarrow> getStatus (job y) = getStatus (job w)"
    "(if reconnect env (events st) then Some (emit DbReconnect st)
      else loop env (n + 1)
            (if n = 0
             then mutate (setMessage ''Waiting to aquire a database connection'') (emit DbReconnect st)
             else emit DbReconnect st)) = Some st'"
  show "getStatus (job st') = getStatus (job st)"
  proof (cases "reconnect env (events st)")
    case True
    with 1(2) show ?thesis by auto
  next
    case False
    show ?thesis
    proof (cases "n = 0")
      case True
      with False 1(2) have "loop env (n + 1)
          (mutate (setMessage ''Waiting to aquire a database connection'') (emit DbReconnect st)) = Some st'"
        by simp
      from 1(1)[OF this] show ?thesis by (simp add: setMessage_def)
    next
      case n: False
      with False 1(2) have "loop env (n + 1) (emit DbReconnect st) = Some st'"
        by simp
      from 1(1)[OF this] show ?thesis by simp
    qed
  qed
qed

lemma try_block_status:
  assumes "try_block env st = Some (Some e, st1)"
  shows "getStatus (job st1) = IN_PROCESS"
proof -
  from assms obtain st0 where r: "reconnect_loop env 0 (mutate (setStatus IN_PROCESS) st) = Some st0"
    and p: "pull env (mutate (setMessage []) st0) = (Some e, st1)"
    by (auto simp: try_block_def split: option.splits)
  from reconnect_loop_status[OF r] have "getStatus (job st0) = IN_PROCESS"
    by (simp add: setStatus_def)
  with pull_thrown_status[OF p] show ?thesis by (simp add: setMessage_def)
qed

text \<open>
  Claim C10. When the \<^verbatim>\<open>try\<close> block of the worker loop throws for a job, the job's status
  was IN_PROCESS at that moment. A \<^verbatim>\<open>DbError\<close> or a \<^verbatim>\<open>WorkerError\<close> is swallowed: the
  handler sets the status FAILED and the exception text as message, and the loop goes on
  with the rest of the queue. Any other \<^verbatim>\<open>std::runtime_error\<close> is recorded in the same
  way and thrown again: the loop ends and the jobs still queued are not looked at. An
  exception of no such class leaves the loop with the job record as it was: no handler
  touches status or message, and the job stays IN_PROCESS.
\<close>

theorem worker_loop_handlers:
  "try_block env \<lparr>job = j, events = evs\<rparr> = Some (Some e, st1) \<longrightarrow>
     getStatus (job st1) = IN_PROCESS \<and>
     getStatus (job (failed (what e) st1)) = FAILED \<and>
     getMessage (job (failed (what e) st1)) = what e \<and>
     ((\<exists>m. e = DbError m \<or> e = WorkerError m) \<longrightarrow>
        run_job env \<lparr>job = j, events = evs\<rparr> = Some (None, failed (what e) st1) \<and>
        run env (j # queue) evs =
          (case run env queue (events (failed (what e) st1)) of
             None \<Rightarrow> None
           | Some (r, done_jobs, evs') \<Rightarrow> Some (r, job (failed (what e) st1) # done_jobs, evs'))) \<and>
     ((\<exists>m. e = RuntimeError m) \<longrightarrow>
        run_job env \<lparr>job = j, events = evs\<rparr> = Some (Some e, failed (what e) st1) \<and>
        run env (j # queue) evs =
          Some (Some e, [job (failed (what e) st1)], events (failed (what e) st1))) \<and>
     ((\<exists>m. e = OtherException m) \<longrightarrow>
        run_job env \<lparr>job = j, events = evs\<rparr> = Some (Some e, st1) \<and>
        run env (j # queue) evs = Some (Some e, [job st1], events st1))"
proof (intro impI conjI)
  assume a: "try_block env \<lparr>job = j, events = evs\<rparr> = Some (Some e, st1)"
  from try_block_status[OF a] show "getStatus (job st1) = IN_PROCESS" .
  show "getStatus (job (failed (what e) st1)) = FAILED"
    by (simp add: failed_def setStatus_def setMessage_def)
  show "getMessage (job (failed (what e) st1)) = what e"
    by (simp add: failed_def setStatus_def setMessage_def)
  {
    assume "\<exists>m. e = DbError m \<or> e = WorkerError m"
    with a show r1: "run_job env \<lparr>job = j, events = evs\<rparr> = Some (None, failed (what e) st1)"
      by (auto simp: run_job_def)
    then show "run env (j # queue) evs =
          (case run env queue (events (failed (what e) st1)) of
             None \<Rightarrow> None
           | Some (r, done_jobs, evs') \<Rightarrow> Some (r, job (failed (what e) st1) # done_jobs, evs'))"
      by simp
  }
  {
    assume "\<exists>m. e = RuntimeError m"
    with a show r2: "run_job env \<lparr>job = j, events = evs\<rparr> = Some (Some e, failed (what e) st1)"
      by (auto simp: run_job_def)
    then show "run env (j # queue) evs =
          Some (Some e, [job (failed (what e) st1)], events (failed (what e) st1))"
      by simp
  }
  {
    assume "\<exists>m. e = OtherException m"
    with a show r3: "run_job env \<lparr>job = j, events = evs\<rparr> = Some (Some e, st1)"
      by (auto simp: run_job_def)
    then show "run env (j # queue) evs = Some (Some e, [job st1], events st1)"
      by simp
  }
qed


theorem worker_loop_handlers_witness:
  "run_job (demo_env_throwing (DbError ''connection lost'')) \<lparr>job = job demo_queued, events = []\<rparr> =
     Some (None, failed ''connection lost'' demo_in_process) \<and>
   run_job (demo_env_throwing (WorkerError ''no such layer'')) \<lparr>job = job demo_queued, events = []\<rparr> =
     Some (None, failed ''no such layer'' demo_in_process) \<and>
   run_job (demo_env_throwing (RuntimeError ''unexpected'')) \<lparr>job = job demo_queued, events = []\<rparr> =
     Some (Some (RuntimeError ''unexpected''), failed ''unexpected'' demo_in_process) \<and>
   run (demo_env_throwing (RuntimeError ''unexpected'')) [job demo_queued, job demo_queued] [] =
     Some (Some (RuntimeError ''unexpected''), [job (failed ''unexpected'' demo_in_process)],
           events (failed ''unexpected'' demo_in_process)) \<and>
   run_job (demo_env_throwing (OtherException ''bad_alloc'')) \<lparr>job = job demo_queued, events = []\<rparr> =
     Some (Some (OtherException ''bad_alloc''), demo_in_process) \<and>
   run (demo_env_throwing (OtherException ''bad_alloc'')) [job demo_queued, job demo_queued] [] =
     Some (Some (OtherException ''bad_alloc''), [job demo_in_process], events demo_in_process) \<and>
   getStatus (job demo_in_process) = IN_PROCESS \<and>
   getStatus (job (failed ''unexpected'' demo_in_process)) = FAILED \<and>
   getMessage (job (failed ''unexpected'' demo_in_process)) = ''unexpected''"
proof -
  have t: "try_block (demo_env_throwing e) \<lparr>job = job demo_queued, events = []\<rparr> = Some (Some e, demo_in_process)"
    for e
    by (simp add: try_block_def reconnect_loop.simps demo_env_throwing_def demo_env_def pull_def
        demo_queued_def demo_in_process_def mutate_def emit_def setStatus_def setMessage_def demo_job_def)
  from worker_loop_handlers[of "demo_env_throwing (DbError ''connection lost'')" "job demo_queued" "[]"
      "DbError ''connection lost''" demo_in_process] t
  have 1: "run_job (demo_env_throwing (DbError ''connection lost'')) \<lparr>job = job demo_queued, events = []\<rparr> =
     Some (None, failed ''connection lost'' demo_in_process)"
    by simp
  from worker_loop_handlers[of "demo_env_throwing (WorkerError ''no such layer'')" "job demo_queued" "[]"
      "WorkerError ''no such layer''" demo_in_process] t
  have 2: "run_job (demo_env_throwing (WorkerError ''no such layer'')) \<lparr>job = job demo_queued, events = []\<rparr> =
     Some (None, failed ''no such layer'' demo_in_process)"
    by simp
  from worker_loop_handlers[of "demo_env_throwing (RuntimeError ''unexpected'')" "job demo_queued" "[]"
      "RuntimeError ''unexpected''" demo_in_process "[job demo_queued]"] t
  have 3: "run_job (demo_env_throwing (RuntimeError ''unexpected'')) \<lparr>job = job demo_queued, events = []\<rparr> =
     Some (Some (RuntimeError ''unexpected''), failed ''unexpected'' demo_in_process)"
    "run (demo_env_throwing (RuntimeError ''unexpected'')) [job demo_queued, job demo_queued] [] =
     Some (Some (RuntimeError ''unexpected''), [job (failed ''unexpected'' demo_in_process)],
           events (failed ''unexpected'' demo_in_process))"
    "getStatus (job (failed ''unexpected'' demo_in_process)) = FAILED"
    "getMessage (job (failed ''unexpected'' demo_in_process)) = ''unexpected''"
    by simp_all
  from worker_loop_handlers[of "demo_env_throwing (OtherException ''bad_alloc'')" "job demo_queued" "[]"
      "OtherException ''bad_alloc''" demo_in_process "[job demo_queued]"] t
  have 4: "run_job (demo_env_throwing (OtherException ''bad_alloc'')) \<lparr>job = job demo_queued, events = []\<rparr> =
     Some (Some (OtherException ''bad_alloc''), demo_in_process)"
    "run (demo_env_throwing (OtherException ''bad_alloc'')) [job demo_queued, job demo_queued] [] =
     Some (Some (OtherException ''bad_alloc''), [job demo_in_process], events demo_in_process)"
    "getStatus (job demo_in_process) = IN_PROCESS"
    by simp_all
  from 1 2 3 4 show ?thesis by blast
qed

section \<open>When the statistics become visible\<close>




section \<open>Decimal numbers read back\<close>

lemma of_char_digit_char: "d < 10 \<Longrightarrow> (of_char (digit_char d) :: nat) = 48 + d"
  by (simp add: digit_char_def of_char_of)

lemma is_digit_digit_char [simp]: "d < 10 \<Longrightarrow> is_digit (digit_char d)"
  by (simp add: is_digit_def of_char_digit_char)

lemma not_space_digit: "is_digit c \<Longrightarrow> \<not> is_space c"
  by (auto simp: is_digit_def is_space_def)

lemma digit_not_sign: "is_digit c \<Longrightarrow> c \<noteq> CHR ''-'' \<and> c \<noteq> CHR ''+'' \<and> c \<noteq> CHR ''.''"
  by (auto simp: is_digit_def)

lemma digits_string_of_nat: "list_all is_digit (string_of_nat n)"
proof (induction n rule: string_of_nat.induct)
  case (1 n)
  show ?case
  proof (cases "n < 10")
    case True
    then show ?thesis by (subst string_of_nat.simps) simp
  next
    case False
    with 1 show ?thesis by (subst string_of_nat.simps) simp
  qed
qed

lemma string_of_nat_not_Nil: "string_of_nat n \<noteq> []"
  by (subst string_of_nat.simps) simp

lemma digits_value_append:
  "list_all is_digit xs \<Longrightarrow> digits_value acc (xs @ ys) = digits_value (digits_value acc xs) ys"
  by (induction xs arbitrary: acc) simp_all

lemma digits_value_digit: "d < 10 \<Longrightarrow> digits_value acc [digit_char d] = 10 * acc + d"
  by (simp add: of_char_digit_char)

lemma digits_value_string_of_nat: "digits_value 0 (string_of_nat n) = n"
proof (induction n rule: string_of_nat.induct)
  case (1 n)
  show ?case
  proof (cases "n < 10")
    case True
    then show ?thesis by (subst string_of_nat.simps) (simp add: of_char_digit_char)
  next
    case False
    with 1 have ih: "digits_value 0 (string_of_nat (n div 10)) = n div 10" by simp
    have "digits_value 0 (string_of_nat (n div 10) @ [digit_char (n mod 10)]) = n"
      by (simp only: digits_value_append[OF digits_string_of_nat] ih)
        (simp add: of_char_digit_char)
    with False show ?thesis by (subst string_of_nat.simps) simp
  qed
qed

lemma atoi_to_string_int: "atoi (to_string_int i) = i"
proof (cases "i < 0")
  case True
  then show ?thesis
    by (simp add: atoi_def to_string_int_def is_space_def digits_value_string_of_nat)
next
  case False
  obtain c cs where s: "string_of_nat (nat i) = c # cs"
    using string_of_nat_not_Nil[of "nat i"] by (cases "string_of_nat (nat i)") auto
  with digits_string_of_nat[of "nat i"] have d: "is_digit c" by simp
  from digits_value_string_of_nat[of "nat i"] s have "digits_value 0 (c # cs) = nat i" by simp
  with False s d not_space_digit[OF d] digit_not_sign[OF d] show ?thesis
    by (simp add: atoi_def to_string_int_def)
qed


lemma to_string_int_inj: "to_string_int n = to_string_int m \<longleftrightarrow> n = m"
  by (metis atoi_to_string_int)


section \<open>Failures of the geometry encoding\<close>

text \<open>
  Claim C6, as stated, fails for the allocation failures: the message of line 216 is the
  same whichever feature is being processed, here the first and the second.
\<close>

theorem geometry_alloc_counterexample:
  "fst (pull (demo_env_source (demo_with_features [demo_bad_alloc])) demo_state) =
     Some (WorkerError ''Unable to allocate memory to export geometry'') \<and>
   fst (pull (demo_env_source (demo_with_features [demo_feature, demo_bad_alloc])) demo_state) =
     Some (WorkerError ''Unable to allocate memory to export geometry'')"
  by code_simp

lemma feature_values_geometry:
  assumes "feature_values tf ofs n f pre = Inr vs"
    and "pgTypeName (FieldMap_at tf c) = ''geometry''"
    and "encode_geometry n f = Inl e"
  shows "feature_values tf ofs n f (pre @ c # rest) = Inl e"
  using assms(1)
proof (induction pre arbitrary: vs)
  case Nil
  with assms(2,3) show ?case by simp
next
  case (Cons x pre)
  from Cons.prems obtain v vs' where
    "(if pgTypeName (FieldMap_at tf x) = ''geometry'' then encode_geometry n f else field_value ofs f x) = Inr v"
    "feature_values tf ofs n f pre = Inr vs'"
    by (auto split: sum.splits)
  with Cons.IH[of vs'] show ?case by simp
qed

lemma stream_features_abort:
  assumes "k < length fs"
    and "\<forall>i<k. \<exists>vs. feature_values tf ofs (n + int i) (fs ! i) cols = Inr vs \<and>
            (\<forall>evs. execPrepared env evs stmt vs = None)"
    and "feature_values tf ofs (n + int k) (fs ! k) cols = Inl e"
  shows "fst (stream_features env stmt tf ofs cols fs n st) = Inl e"
  using assms
proof (induction fs arbitrary: k n st)
  case Nil
  then show ?case by simp
next
  case (Cons f fs)
  show ?case
  proof (cases k)
    case 0
    with Cons.prems show ?thesis by (simp add: Let_def)
  next
    case (Suc k')
    from Cons.prems(2)[rule_format, of 0] Suc obtain vs where
      v: "feature_values tf ofs n f cols = Inr vs" "\<forall>evs. execPrepared env evs stmt vs = None"
      by auto
    have a: "k' < length fs" using Cons.prems(1) Suc by simp
    have b: "\<forall>i<k'. \<exists>vs. feature_values tf ofs (n + 1 + int i) (fs ! i) cols = Inr vs \<and>
            (\<forall>evs. execPrepared env evs stmt vs = None)"
    proof (intro allI impI)
      fix i assume "i < k'"
      with Cons.prems(2)[rule_format, of "Suc i"] Suc
      show "\<exists>vs. feature_values tf ofs (n + 1 + int i) (fs ! i) cols = Inr vs \<and>
            (\<forall>evs. execPrepared env evs stmt vs = None)"
        by (simp add: algebra_simps)
    qed
    have c: "feature_values tf ofs (n + 1 + int k') (fs ! k') cols = Inl e"
      using Cons.prems(3) Suc by (simp add: algebra_simps)
    from Cons.IH[OF a b c] v show ?thesis by (simp add: Let_def)
  qed
qed

lemma stream_abort:
  assumes "prepare env (events st) (insertStmtName (job st))
             (insertQuery (tempTableName (job st)) tf (insertColumns cols)) (length (insertColumns cols)) = None"
    and "k < length fs"
    and "\<forall>i<k. \<exists>vs. feature_values tf ofs (int i) (fs ! i) (insertColumns cols) = Inr vs \<and>
            (\<forall>evs. execPrepared env evs (insertStmtName (job st)) vs = None)"
    and "feature_values tf ofs (int k) (fs ! k) (insertColumns cols) = Inl e"
  shows "fst (stream env fs tf ofs cols st) = Inl e"
  using assms(1) stream_features_abort[of k fs tf ofs 0 "insertColumns cols" env "insertStmtName (job st)" e]
    assms(2,3,4)
  by (simp add: stream_def Let_def)

lemma pull_stream_abort:
  assumes "getLayer env (getLayerName (job st)) = Inr layer"
    and "open_source env layer st = (Inr ol, st1)"
    and "check_geom_field_count env ol = None"
    and "getTransaction env (events st1)"
    and "introspect env layer (collect_fields (GetFieldDefns ol) 0 Map.empty) (emit DbGetTransaction st1)
           = (Inr (tf, cols), st2)"
    and "fst (stream env (source_features ol (job st)) tf (collect_fields (GetFieldDefns ol) 0 Map.empty) cols st2)
           = Inl e"
  shows "fst (pull env st) = Some e"
proof -
  have j: "job st1 = job st" using open_source_frame[OF assms(2)] by simp
  obtain r st3 where s: "stream env (source_features ol (job st)) tf
      (collect_fields (GetFieldDefns ol) 0 Map.empty) cols st2 = (r, st3)"
    by (cases "stream env (source_features ol (job st)) tf (collect_fields (GetFieldDefns ol) 0 Map.empty) cols st2")
  with assms(6) have "r = Inl e" by simp
  with assms(1-5) s j show ?thesis
    by (simp add: pull_def Let_def transaction_def)
qed


lemma catch_WorkerError:
  "fst (pull env st) = Some (WorkerError m) \<Longrightarrow> getStatus (job (snd (catch (pull env st)))) = FAILED"
  by (cases "pull env st") (simp add: failed_def setStatus_def setMessage_def)

text \<open>
  Claim C6, amended. Let the pull have come to the feature with index \<open>k\<close> (from 0: the
  number of features streamed before it), and let the columns before the geometry column
  give their values for it. If the WKB export of its geometry fails, the pull throws
  \<^verbatim>\<open>WorkerError\<close> "Could not export the geometry from feature #k", and no other index
  gives that message. If the buffer cannot be allocated, or the hex string cannot, the
  pull throws \<^verbatim>\<open>WorkerError\<close> with a fixed message that names no feature. In each case
  the handler of the worker loop sets the job to FAILED.
\<close>

theorem geometry_failures:
  "getLayer env (getLayerName (job st)) = Inr layer \<and>
   open_source env layer st = (Inr ol, st1) \<and>
   check_geom_field_count env ol = None \<and>
   getTransaction env (events st1) \<and>
   introspect env layer (collect_fields (GetFieldDefns ol) 0 Map.empty) (emit DbGetTransaction st1)
     = (Inr (tf, cols), st2) \<and>
   prepare env (events st2) (insertStmtName (job st))
     (insertQuery (tempTableName (job st)) tf (insertColumns cols)) (length (insertColumns cols)) = None \<and>
   k < length (source_features ol (job st)) \<and>
   (\<forall>i<k. \<exists>vs. feature_values tf (collect_fields (GetFieldDefns ol) 0 Map.empty) (int i)
                   (source_features ol (job st) ! i) (insertColumns cols) = Inr vs \<and>
               (\<forall>evs. execPrepared env evs (insertStmtName (job st)) vs = None)) \<and>
   insertColumns cols = before @ c # rest \<and>
   pgTypeName (FieldMap_at tf c) = ''geometry'' \<and>
   (\<exists>vs. feature_values tf (collect_fields (GetFieldDefns ol) 0 Map.empty) (int k)
            (source_features ol (job st) ! k) before = Inr vs)
   \<longrightarrow>
     (CPLMalloc_ok (source_features ol (job st) ! k) \<and> exportToWkb (source_features ol (job st) ! k) = None \<longrightarrow>
        fst (pull env st) =
          Some (WorkerError (''Could not export the geometry from feature #'' @ to_string_int (int k))) \<and>
        getStatus (job (snd (catch (pull env st)))) = FAILED) \<and>
     (\<not> CPLMalloc_ok (source_features ol (job st) ! k) \<longrightarrow>
        fst (pull env st) = Some (WorkerError ''Unable to allocate memory to export geometry'') \<and>
        getStatus (job (snd (catch (pull env st)))) = FAILED) \<and>
     (CPLMalloc_ok (source_features ol (job st) ! k) \<and> exportToWkb (source_features ol (job st) ! k) \<noteq> None \<and>
      \<not> CPLBinaryToHex_ok (source_features ol (job st) ! k) \<longrightarrow>
        fst (pull env st) = Some (WorkerError ''Unable to allocate memory to convert geometry to hex'') \<and>
        getStatus (job (snd (catch (pull env st)))) = FAILED) \<and>
     (\<forall>k'. (''Could not export the geometry from feature #'' @ to_string_int (int k') =
            ''Could not export the geometry from feature #'' @ to_string_int (int k)) = (k' = k))"
proof (intro impI, elim conjE exE)
  let ?ofs = "collect_fields (GetFieldDefns ol) 0 Map.empty"
  let ?f = "source_features ol (job st) ! k"
  fix vs
  assume a: "getLayer env (getLayerName (job st)) = Inr layer"
    "open_source env layer st = (Inr ol, st1)"
    "check_geom_field_count env ol = None"
    "getTransaction env (events st1)"
    "introspect env layer ?ofs (emit DbGetTransaction st1) = (Inr (tf, cols), st2)"
  assume b: "prepare env (events st2) (insertStmtName (job st))
     (insertQuery (tempTableName (job st)) tf (insertColumns cols)) (length (insertColumns cols)) = None"
    "k < length (source_features ol (job st))"
    "\<forall>i<k. \<exists>vs. feature_values tf ?ofs (int i) (source_features ol (job st) ! i) (insertColumns cols) = Inr vs \<and>
               (\<forall>evs. execPrepared env evs (insertStmtName (job st)) vs = None)"
  assume c: "insertColumns cols = before @ c # rest"
    "pgTypeName (FieldMap_at tf c) = ''geometry''"
    "feature_values tf ?ofs (int k) ?f before = Inr vs"
  have j: "job st2 = job st" using upto_introspect(1)[OF a(2,5)] .
  have abort: "fst (pull env st) = Some e" if "encode_geometry (int k) ?f = Inl e" for e
  proof -
    from feature_values_geometry[OF c(3,2) that, of rest] c(1)
    have "feature_values tf ?ofs (int k) ?f (insertColumns cols) = Inl e" by simp
    with b j have "fst (stream env (source_features ol (job st)) tf ?ofs cols st2) = Inl e"
      by (intro stream_abort) simp_all
    with a show ?thesis by (intro pull_stream_abort)
  qed
  have inj: "\<forall>k'. (''Could not export the geometry from feature #'' @ to_string_int (int k') =
            ''Could not export the geometry from feature #'' @ to_string_int (int k)) = (k' = k)"
    by (simp add: to_string_int_inj)
  have 1: "fst (pull env st) =
          Some (WorkerError (''Could not export the geometry from feature #'' @ to_string_int (int k))) \<and>
        getStatus (job (snd (catch (pull env st)))) = FAILED"
    if "CPLMalloc_ok ?f \<and> exportToWkb ?f = None"
    using abort[of "WorkerError (''Could not export the geometry from feature #'' @ to_string_int (int k))"] that
    by (simp add: encode_geometry_def catch_WorkerError)
  have 2: "fst (pull env st) = Some (WorkerError ''Unable to allocate memory to export geometry'') \<and>
        getStatus (job (snd (catch (pull env st)))) = FAILED"
    if "\<not> CPLMalloc_ok ?f"
    using abort[of "WorkerError ''Unable to allocate memory to export geometry''"] that
    by (simp add: encode_geometry_def catch_WorkerError)
  have 3: "fst (pull env st) = Some (WorkerError ''Unable to allocate memory to convert geometry to hex'') \<and>
        getStatus (job (snd (catch (pull env st)))) = FAILED"
    if "CPLMalloc_ok ?f \<and> exportToWkb ?f \<noteq> None \<and> \<not> CPLBinaryToHex_ok ?f"
    using abort[of "WorkerError ''Unable to allocate memory to convert geometry to hex''"] that
    by (auto simp: encode_geometry_def catch_WorkerError)
  from 1 2 3 inj show "(CPLMalloc_ok ?f \<and> exportToWkb ?f = None \<longrightarrow>
        fst (pull env st) =
          Some (WorkerError (''Could not export the geometry from feature #'' @ to_string_int (int k))) \<and>
        getStatus (job (snd (catch (pull env st)))) = FAILED) \<and>
     (\<not> CPLMalloc_ok ?f \<longrightarrow>
        fst (pull env st) = Some (WorkerError ''Unable to allocate memory to export geometry'') \<and>
        getStatus (job (snd (catch (pull env st)))) = FAILED) \<and>
     (CPLMalloc_ok ?f \<and> exportToWkb ?f \<noteq> None \<and> \<not> CPLBinaryToHex_ok ?f \<longrightarrow>
        fst (pull env st) = Some (WorkerError ''Unable to allocate memory to convert geometry to hex'') \<and>
        getStatus (job (snd (catch (pull env st)))) = FAILED) \<and>
     (\<forall>k'. (''Could not export the geometry from feature #'' @ to_string_int (int k') =
            ''Could not export the geometry from feature #'' @ to_string_int (int k)) = (k' = k))"
    by blast
qed


theorem geometry_failures_witness:
  "fst (pull (demo_env_source (demo_with_features [demo_feature, demo_bad_export])) demo_state) =
     Some (WorkerError (''Could not export the geometry from feature #'' @ to_string_int (int 1))) \<and>
   getStatus (job (snd (catch (pull (demo_env_source (demo_with_features [demo_feature, demo_bad_export]))
     demo_state)))) = FAILED \<and>
   fst (pull (demo_env_source (demo_with_features [demo_feature, demo_bad_alloc])) demo_state) =
     Some (WorkerError ''Unable to allocate memory to export geometry'')"
proof -
  let ?st1 = "\<lparr>job = demo_job, events = [OgrOpen ''/data/roads.shp'', OgrGetLayerByName ''roads'', OgrResetReading]\<rparr>"
  let ?st2 = "\<lparr>job = demo_job, events = [OgrOpen ''/data/roads.shp'', OgrGetLayerByName ''roads'', OgrResetReading,
      DbGetTransaction, DbCreateTempTable ''public'' ''roads'' ''batyr_42'', DbGetTableFields ''public'' ''roads'']\<rparr>"
  let ?cols = "\<lparr>primaryKeyColumns = [''id''], geometryColumn = ''geom'',
      insertColumns = [''geom'', ''id'', ''name''], updateColumns = [''geom'', ''name'']\<rparr>"
  have hyps: "getLayer (demo_env_source (demo_with_features [demo_feature, bad])) (getLayerName (job demo_state)) = Inr demo_layer \<and>
   open_source (demo_env_source (demo_with_features [demo_feature, bad])) demo_layer demo_state =
     (Inr (demo_with_features [demo_feature, bad]), ?st1) \<and>
   check_geom_field_count (demo_env_source (demo_with_features [demo_feature, bad])) (demo_with_features [demo_feature, bad]) = None \<and>
   getTransaction (demo_env_source (demo_with_features [demo_feature, bad])) (events ?st1) \<and>
   introspect (demo_env_source (demo_with_features [demo_feature, bad])) demo_layer
     (collect_fields (GetFieldDefns (demo_with_features [demo_feature, bad])) 0 Map.empty) (emit DbGetTransaction ?st1)
     = (Inr (demo_fields, ?cols), ?st2) \<and>
   prepare (demo_env_source (demo_with_features [demo_feature, bad])) (events ?st2) (insertStmtName (job demo_state))
     (insertQuery (tempTableName (job demo_state)) demo_fields (insertColumns ?cols)) (length (insertColumns ?cols)) = None \<and>
   1 < length (source_features (demo_with_features [demo_feature, bad]) (job demo_state)) \<and>
   (\<forall>i<1. \<exists>vs. feature_values demo_fields
                   (collect_fields (GetFieldDefns (demo_with_features [demo_feature, bad])) 0 Map.empty) (int i)
                   (source_features (demo_with_features [demo_feature, bad]) (job demo_state) ! i) (insertColumns ?cols) = Inr vs \<and>
               (\<forall>evs. execPrepared (demo_env_source (demo_with_features [demo_feature, bad])) evs
                         (insertStmtName (job demo_state)) vs = None)) \<and>
   insertColumns ?cols = [] @ ''geom'' # [''id'', ''name''] \<and>
   pgTypeName (FieldMap_at demo_fields ''geom'') = ''geometry'' \<and>
   (\<exists>vs. feature_values demo_fields
            (collect_fields (GetFieldDefns (demo_with_features [demo_feature, bad])) 0 Map.empty) (int 1)
            (source_features (demo_with_features [demo_feature, bad]) (job demo_state) ! 1) [] = Inr vs)"
    for bad
  proof -
    have fv: "feature_values demo_fields
        (collect_fields (GetFieldDefns demo_ogr_layer) 0 Map.empty) 0 demo_feature [''geom'', ''id'', ''name'']
        = Inr [''01AB'', ''7'', ''A1'']"
      by code_simp
    have intro: "introspect (demo_env_source l) demo_layer
        (collect_fields (GetFieldDefns demo_ogr_layer) 0 Map.empty) (emit DbGetTransaction ?st1)
        = (Inr (demo_fields, ?cols), ?st2)" for l
      by code_simp
    from fv intro show ?thesis
      by (simp add: demo_env_source_def demo_env_def demo_with_features_def
          demo_state_def demo_job_def source_features_def open_source_def Let_def emit_def demo_layer_def
          check_geom_field_count_def demo_ogr_layer_def demo_fields_def FieldMap_at_def)
  qed
  have e: "CPLMalloc_ok (source_features (demo_with_features [demo_feature, demo_bad_export]) (job demo_state) ! 1) \<and>
      exportToWkb (source_features (demo_with_features [demo_feature, demo_bad_export]) (job demo_state) ! 1) = None"
    by (simp add: source_features_def demo_with_features_def demo_bad_export_def demo_feature_def)
  have a: "\<not> CPLMalloc_ok (source_features (demo_with_features [demo_feature, demo_bad_alloc]) (job demo_state) ! 1)"
    by (simp add: source_features_def demo_with_features_def demo_bad_alloc_def demo_feature_def)
  from geometry_failures[of "demo_env_source (demo_with_features [demo_feature, demo_bad_export])" demo_state
      demo_layer "demo_with_features [demo_feature, demo_bad_export]" ?st1 demo_fields ?cols ?st2 1
      "[]" "''geom''" "[''id'', ''name'']"] hyps[of demo_bad_export] e
  have 1: "fst (pull (demo_env_source (demo_with_features [demo_feature, demo_bad_export])) demo_state) =
     Some (WorkerError (''Could not export the geometry from feature #'' @ to_string_int (int 1))) \<and>
   getStatus (job (snd (catch (pull (demo_env_source (demo_with_features [demo_feature, demo_bad_export]))
     demo_state)))) = FAILED"
    by blast
  from geometry_failures[of "demo_env_source (demo_with_features [demo_feature, demo_bad_alloc])" demo_state
      demo_layer "demo_with_features [demo_feature, demo_bad_alloc]" ?st1 demo_fields ?cols ?st2 1
      "[]" "''geom''" "[''id'', ''name'']"] hyps[of demo_bad_alloc] a
  have 2: "fst (pull (demo_env_source (demo_with_features [demo_feature, demo_bad_alloc])) demo_state) =
     Some (WorkerError ''Unable to allocate memory to export geometry'')"
    by blast
  from 1 2 show ?thesis by blast
qed

section \<open>Rendering a REAL field\<close>

lemma length_string_of_nat: "0 < n \<Longrightarrow> k < 10 ^ n \<Longrightarrow> length (string_of_nat k) \<le> n"
proof (induction k arbitrary: n rule: string_of_nat.induct)
  case (1 k)
  show ?case
  proof (cases "k < 10")
    case True
    with 1(2) show ?thesis by (subst string_of_nat.simps) simp
  next
    case False
    obtain n' where n: "n = Suc n'" using 1(2) by (cases n) auto
    from False 1(3) n have "0 < n'" by (cases n') auto
    moreover from 1(3) n have "k div 10 < 10 ^ n'" by (simp add: less_mult_imp_div_less)
    ultimately have "length (string_of_nat (k div 10)) \<le> n'" using 1(1) False by simp
    with n False show ?thesis by (subst string_of_nat.simps) simp
  qed
qed

lemma digits_value_zeros: "digits_value 0 (replicate z (CHR ''0'') @ s) = digits_value 0 s"
  by (induction z) (simp_all add: is_digit_def)

lemma pad6_props:
  assumes "k < 1000000"
  shows "length (pad6 (string_of_nat k)) = 6"
    and "list_all is_digit (pad6 (string_of_nat k))"
    and "digits_value 0 (pad6 (string_of_nat k)) = k"
proof -
  from length_string_of_nat[of 6 k] assms have "length (string_of_nat k) \<le> 6" by simp
  then show "length (pad6 (string_of_nat k)) = 6" by (simp add: pad6_def)
  have "list_all is_digit (replicate z (CHR ''0''))" for z
    by (induction z) (simp_all add: is_digit_def)
  then show "list_all is_digit (pad6 (string_of_nat k))"
    by (simp add: pad6_def digits_string_of_nat)
  show "digits_value 0 (pad6 (string_of_nat k)) = k"
    by (simp add: pad6_def digits_value_zeros digits_value_string_of_nat)
qed

lemma decimal_value_fixed:
  assumes "list_all is_digit ip" "ip \<noteq> []" "list_all is_digit fp" "fp \<noteq> []"
  shows "decimal_value ((if sg then ''-'' else []) @ ip @ ''.'' @ fp) =
     Some ((if sg then - 1 else 1) * (of_nat (digits_value 0 ip) + of_nat (digits_value 0 fp) / 10 ^ length fp))"
proof -
  obtain c cs where ip: "ip = c # cs" using assms(2) by (cases ip) auto
  with assms(1) have c: "is_digit c" by simp
  have nd: "\<not> is_digit (CHR ''.'')" by (simp add: is_digit_def)
  have tw: "takeWhile is_digit (ip @ CHR ''.'' # fp) = ip"
    using assms(1) nd by (simp add: list_all_iff)
  have dw: "dropWhile is_digit (ip @ CHR ''.'' # fp) = CHR ''.'' # fp"
    using assms(1) nd by (simp add: list_all_iff)
  show ?thesis
  proof (cases sg)
    case True
    with tw dw assms show ?thesis by (simp add: decimal_value_def)
  next
    case False
    from digit_not_sign[OF c] have "c \<noteq> CHR ''-''" by simp
    with False tw dw assms ip show ?thesis by (simp add: decimal_value_def Let_def)
  qed
qed

lemma round_half_even_close:
  assumes "0 < d"
  shows "2 * \<bar>int (round_half_even n d) * int d - int n\<bar> \<le> int d"
proof -
  let ?q = "n div d" and ?r = "n mod d"
  have n: "int n = int ?q * int d + int ?r"
    by (metis mult.commute of_nat_add of_nat_mult div_mult_mod_eq)
  have r: "?r < d" using assms by simp
  consider "2 * ?r < d" | "d < 2 * ?r" | "2 * ?r = d" by linarith
  then show ?thesis
  proof cases
    case 1
    then have "round_half_even n d = ?q" by (simp add: round_half_even_def Let_def)
    with n 1 show ?thesis by simp
  next
    case 2
    then have "round_half_even n d = ?q + 1" by (simp add: round_half_even_def Let_def)
    with n 2 r show ?thesis by (simp add: algebra_simps)
  next
    case 3
    then have "round_half_even n d = ?q \<or> round_half_even n d = ?q + 1"
      by (simp add: round_half_even_def Let_def)
    with n 3 show ?thesis by (auto simp: algebra_simps)
  qed
qed

lemma micro_units_close:
  "\<bar>of_nat (micro_units m e) / 1000000 - finite_value False m e\<bar> \<le> (1 / 2000000 :: rat)"
proof (cases "0 \<le> e")
  case True
  then show ?thesis by (simp add: micro_units_def finite_value_def)
next
  case False
  let ?d = "2 ^ nat (- e) :: nat"
  let ?q = "round_half_even (m * 1000000) ?d"
  have d: "0 < ?d" by simp
  from round_half_even_close[OF d, of "m * 1000000"]
  have "2 * \<bar>int ?q * int ?d - int (m * 1000000)\<bar> \<le> int ?d" .
  then have "(of_int (2 * \<bar>int ?q * int ?d - int (m * 1000000)\<bar>) :: rat) \<le> of_int (int ?d)"
    by (simp only: of_int_le_iff)
  then have a: "2 * \<bar>(of_nat ?q :: rat) * of_nat ?d - of_nat m * 1000000\<bar> \<le> of_nat ?d"
    by simp
  have dpos: "(0::rat) < of_nat ?d" by simp
  have "(of_nat ?q :: rat) / 1000000 - of_nat m / of_nat ?d
      = (of_nat ?q * of_nat ?d - of_nat m * 1000000) / (1000000 * of_nat ?d)"
    using dpos by (simp add: field_simps)
  then have "\<bar>(of_nat ?q :: rat) / 1000000 - of_nat m / of_nat ?d\<bar>
      = \<bar>of_nat ?q * of_nat ?d - of_nat m * 1000000\<bar> / (1000000 * of_nat ?d)"
    using dpos by (simp add: abs_divide abs_mult del: of_nat_power)
  also have "\<dots> \<le> (of_nat ?d / 2) / (1000000 * of_nat ?d)"
    using a dpos by (intro divide_right_mono) simp_all
  also have "\<dots> = 1 / 2000000" using dpos by simp
  finally show ?thesis using False
    by (simp add: micro_units_def finite_value_def)
qed


lemma string_of_nat_0: "string_of_nat 0 = ''0''"
  by code_simp

lemma pad6_0: "pad6 ''0'' = ''000000''"
  by code_simp

text \<open>
  Claim C4, as stated, fails: \<^verbatim>\<open>std::to_string\<close> keeps six digits after the decimal point,
  so the doubles \<open>2\<^sup>-\<^sup>3\<^sup>0\<close> and \<open>2\<^sup>-\<^sup>3\<^sup>1\<close>, which differ, are both streamed as
  \<^verbatim>\<open>0.000000\<close>.
\<close>

theorem real_rendering_counterexample:
  "to_string_double (Finite False 1 (- 30)) = ''0.000000'' \<and>
   to_string_double (Finite False 1 (- 31)) = ''0.000000'' \<and>
   finite_value False 1 (- 30) \<noteq> finite_value False 1 (- 31) \<and>
   field_value (Map.empty(''len'' \<mapsto> \<lparr>OgrField_name = [], OgrField_index = 0, OgrField_type = OFTReal\<rparr>))
     (demo_feature\<lparr>GetFieldAsDouble := (\<lambda>i. Finite False 1 (- 30))\<rparr>) ''len'' = Inr ''0.000000''"
proof -
  have m: "micro_units 1 (- 30) = 0" "micro_units 1 (- 31) = 0"
    by (simp_all add: micro_units_def round_half_even_def)
  have 1: "to_string_double (Finite False 1 (- 30)) = ''0.000000''"
    unfolding to_string_double.simps m by (simp add: string_of_nat_0 pad6_0)
  have 2: "to_string_double (Finite False 1 (- 31)) = ''0.000000''"
    unfolding to_string_double.simps m by (simp add: string_of_nat_0 pad6_0)
  have 3: "finite_value False 1 (- 30) \<noteq> finite_value False 1 (- 31)"
    by (simp add: finite_value_def)
  have 4: "field_value (Map.empty(''len'' \<mapsto> \<lparr>OgrField_name = [], OgrField_index = 0, OgrField_type = OFTReal\<rparr>))
     (demo_feature\<lparr>GetFieldAsDouble := (\<lambda>i. Finite False 1 (- 30))\<rparr>) ''len'' =
     Inr (to_string_double (Finite False 1 (- 30)))"
    by (simp add: field_value_def OgrFieldMap_at_def demo_feature_def)
  from 1 2 3 4 show ?thesis by simp
qed

text \<open>
  Claim C4, amended. A source field of kind REAL is streamed as \<^verbatim>\<open>std::to_string\<close> prints
  the double: for a finite double an optional minus sign, the digits of the integer
  part, a point and exactly six digits; read back as a decimal number the text differs
  from the value of the double by at most \<open>5 \<sqdot> 10\<^sup>-\<^sup>7\<close>.
\<close>

theorem real_rendering:
  "field_value (Map.empty(c \<mapsto> \<lparr>OgrField_name = n, OgrField_index = i, OgrField_type = OFTReal\<rparr>)) f c =
     Inr (to_string_double (GetFieldAsDouble f i)) \<and>
   (\<exists>ip fp. to_string_double (Finite sg m e) = (if sg then ''-'' else []) @ ip @ ''.'' @ fp \<and>
      ip \<noteq> [] \<and> list_all is_digit ip \<and> length fp = 6 \<and> list_all is_digit fp) \<and>
   (\<exists>r. decimal_value (to_string_double (Finite sg m e)) = Some r \<and>
      \<bar>r - finite_value sg m e\<bar> \<le> 1 / 2000000)"
proof (intro conjI)
  show "field_value (Map.empty(c \<mapsto> \<lparr>OgrField_name = n, OgrField_index = i, OgrField_type = OFTReal\<rparr>)) f c =
     Inr (to_string_double (GetFieldAsDouble f i))"
    by (simp add: field_value_def OgrFieldMap_at_def)
  let ?q = "micro_units m e"
  let ?ip = "string_of_nat (?q div 1000000)"
  let ?fp = "pad6 (string_of_nat (?q mod 1000000))"
  have lt: "?q mod 1000000 < 1000000" by simp
  note fp = pad6_props[OF lt]
  have s: "to_string_double (Finite sg m e) = (if sg then ''-'' else []) @ ?ip @ ''.'' @ ?fp"
    by simp
  from s fp show "\<exists>ip fp. to_string_double (Finite sg m e) = (if sg then ''-'' else []) @ ip @ ''.'' @ fp \<and>
      ip \<noteq> [] \<and> list_all is_digit ip \<and> length fp = 6 \<and> list_all is_digit fp"
    using string_of_nat_not_Nil digits_string_of_nat by blast
  have fpne: "?fp \<noteq> []" using fp(1) by auto
  have "decimal_value (to_string_double (Finite sg m e)) =
      Some ((if sg then - 1 else 1) * (of_nat (digits_value 0 ?ip) + of_nat (digits_value 0 ?fp) / 10 ^ length ?fp))"
    unfolding s by (rule decimal_value_fixed[OF digits_string_of_nat string_of_nat_not_Nil fp(2) fpne])
  also have "(of_nat (digits_value 0 ?ip) + of_nat (digits_value 0 ?fp) / 10 ^ length ?fp :: rat)
      = of_nat (?q div 1000000) + of_nat (?q mod 1000000) / 1000000"
    by (simp add: fp digits_value_string_of_nat)
  also have "\<dots> = of_nat ?q / 1000000"
  proof -
    have "(of_nat ?q :: rat) = of_nat (1000000 * (?q div 1000000) + ?q mod 1000000)" by simp
    also have "\<dots> = 1000000 * of_nat (?q div 1000000) + of_nat (?q mod 1000000)"
      by (simp only: of_nat_add of_nat_mult of_nat_numeral)
    finally show ?thesis by (simp add: field_simps)
  qed
  finally have d: "decimal_value (to_string_double (Finite sg m e)) =
      Some ((if sg then - 1 else 1) * (of_nat ?q / 1000000))" .
  have "\<bar>(if sg then - 1 else 1) * (of_nat ?q / 1000000) - finite_value sg m e\<bar>
      = \<bar>of_nat ?q / 1000000 - finite_value False m e\<bar>"
    by (simp add: finite_value_def abs_minus_commute)
  with micro_units_close[of m e]
  have "\<bar>(if sg then - 1 else 1) * (of_nat ?q / 1000000) - finite_value sg m e\<bar> \<le> 1 / 2000000"
    by (simp only:)
  with d show "\<exists>r. decimal_value (to_string_double (Finite sg m e)) = Some r \<and>
      \<bar>r - finite_value sg m e\<bar> \<le> 1 / 2000000"
    by blast
qed

section \<open>The update step\<close>

lemma join_Cons: "join (x # xs) sep = x @ concat (map (\<lambda>y. sep @ y) xs)"
  by (induction xs arbitrary: x) simp_all

lemma set_clause_loop_Suc:
  "set_clause_loop tmp cs (Suc i) =
     concat (map (\<lambda>y. '', '' @ y) (map render_assignment (map (\<lambda>c. (c, ColRef tmp c)) cs)))"
  by (induction cs arbitrary: i) (simp_all add: render_assignment_def)

lemma set_clause_loop_join:
  "set_clause_loop tmp cs 0 = join (map render_assignment (map (\<lambda>c. (c, ColRef tmp c)) cs)) '', ''"
proof (cases cs)
  case Nil
  then show ?thesis by simp
next
  case (Cons c cs')
  then show ?thesis
    by (simp add: join_Cons set_clause_loop_Suc[simplified] render_assignment_def del: join.simps)
qed

lemma pk_condition_loop_Suc:
  "pk_condition_loop tbl tmp cs (Suc i) =
     concat (map (\<lambda>y. '' and '' @ y)
       (map render_expr (map (\<lambda>c. IsNotDistinctFrom (ColRef tbl c) (ColRef tmp c)) cs)))"
  by (induction cs arbitrary: i) simp_all

lemma pk_condition_loop_join:
  "pk_condition_loop tbl tmp cs 0 =
     join (map render_expr (map (\<lambda>c. IsNotDistinctFrom (ColRef tbl c) (ColRef tmp c)) cs)) '' and ''"
proof (cases cs)
  case Nil
  then show ?thesis by simp
next
  case (Cons c cs')
  then show ?thesis
    by (simp add: join_Cons pk_condition_loop_Suc[simplified] del: join.simps)
qed

lemma diff_condition_loop_Suc:
  "diff_condition_loop tbl tmp cs (Suc i) =
     concat (map (\<lambda>y. '' or '' @ y)
       (map render_expr (map (\<lambda>c. Paren (IsDistinctFrom (ColRef tbl c) (ColRef tmp c))) cs)))"
  by (induction cs arbitrary: i) simp_all

lemma diff_condition_loop_join:
  "diff_condition_loop tbl tmp cs 0 =
     join (map render_expr (map (\<lambda>c. Paren (IsDistinctFrom (ColRef tbl c) (ColRef tmp c))) cs)) '' or ''"
proof (cases cs)
  case Nil
  then show ?thesis by simp
next
  case (Cons c cs')
  then show ?thesis
    by (simp add: join_Cons diff_condition_loop_Suc[simplified] del: join.simps)
qed

lemma updateStmt_render:
  "updateStmt layer tmp ucols pks = render_update (update_ast layer tmp ucols pks)"
  by (simp add: updateStmt_def render_update_def update_ast_def set_clause_loop_join
      pk_condition_loop_join diff_condition_loop_join del: join.simps)
    (simp)


lemma valid_update_ast:
  "valid_update (update_ast layer tmp ucols pks) \<longleftrightarrow>
     ucols \<noteq> [] \<and> pks \<noteq> [] \<and> tmp \<noteq> target_table_name layer"
  by (auto simp: valid_update_def update_ast_def list_all_iff)







text \<open>From a pull that reaches the reconciliation to the statements it executes.\<close>

lemma pull_FINISHED_reaches:
  assumes "pull env st = (None, st')" and "getStatus (job st') = FINISHED"
  obtains layer tf cols n st3 where "reaches_reconcile env st layer tf cols n st3"
    "reconcile env layer cols n st3 = (None, st')" "job st3 = job st"
  using assms
  by (rule pull_FINISHED) (auto simp: reaches_reconcile_def)

lemma reaches_reconcile_pull:
  assumes "reaches_reconcile env st layer tf cols n st3"
  shows "pull env st = reconcile env layer cols n st3" and "job st3 = job st"
proof -
  from assms obtain ol :: OGRLayer and st1 st2 where a: "getLayer env (getLayerName (job st)) = Inr layer"
    "open_source env layer st = (Inr ol, st1)" "check_geom_field_count env ol = None"
    "getTransaction env (events st1)"
    "introspect env layer (collect_fields (GetFieldDefns ol) 0 Map.empty) (emit DbGetTransaction st1)
       = (Inr (tf, cols), st2)"
    "stream env (source_features ol (job st)) tf (collect_fields (GetFieldDefns ol) 0 Map.empty) cols st2
       = (Inr n, st3)"
    by (auto simp: reaches_reconcile_def)
  have j: "job st1 = job st" using open_source_frame[OF a(2)] by simp
  from a j show "pull env st = reconcile env layer cols n st3"
    by (simp add: pull_def Let_def transaction_def)
  from upto_stream(1)[OF a(2,5,6)] show "job st3 = job st" .
qed







section \<open>The primary key under the update step\<close>






section \<open>A table with no column outside its primary key\<close>

lemma occurs_in_middle: "occurs_in pat (a @ pat @ b)"
proof -
  have "take (length pat) (drop (length a) (a @ pat @ b)) = pat" by simp
  moreover have "length a \<in> set [0..<Suc (length (a @ pat @ b))]" by simp
  ultimately show ?thesis unfolding occurs_in_def list_ex_iff by blast
qed

lemma updateStmt_no_columns:
  "updateStmt layer tmp [] pks =
     ''update \"'' @ target_table_schema layer @ ''\".\"'' @ target_table_name layer
     @ ''\"  set  from \"'' @ tmp @ ''\" where (''
     @ pk_condition_loop (target_table_name layer) tmp pks 0 @ '') and ()''"
  by (simp add: updateStmt_def)

lemma updateStmt_no_columns_occurs: "occurs_in '' set  from '' (updateStmt layer tmp [] pks)"
proof -
  have "updateStmt layer tmp [] pks =
      (''update \"'' @ target_table_schema layer @ ''\".\"'' @ target_table_name layer @ ''\" '')
      @ '' set  from '' @ (''\"'' @ tmp @ ''\" where (''
      @ pk_condition_loop (target_table_name layer) tmp pks 0 @ '') and ()'')"
    by (simp add: updateStmt_def)
  then show ?thesis by (simp only: occurs_in_middle)
qed

lemma all_keys_no_update_columns:
  assumes "partition_columns j ofs tf cols0 = Inr cols" and "list_all (\<lambda>p. isPrimaryKey (snd p)) tf"
  shows "updateColumns cols = updateColumns cols0"
proof -
  from assms(2) have "filter (\<lambda>f. \<not> isPrimaryKey f) (map snd tf) = []"
    by (auto simp: filter_empty_conv list_all_iff)
  with partition_columns_keys[OF assms(1)] show ?thesis by simp
qed

lemma reaches_reconcile_catalog:
  assumes "reaches_reconcile env st layer tf cols n st3"
  obtains j ofs evs where "partition_columns j ofs tf no_columns = Inr cols"
    "getTableFields env evs (target_table_schema layer) (target_table_name layer) = Inr tf"
proof -
  from assms obtain ol :: OGRLayer and st1 st2 where
    "introspect env layer (collect_fields (GetFieldDefns ol) 0 Map.empty) (emit DbGetTransaction st1)
       = (Inr (tf, cols), st2)"
    by (auto simp: reaches_reconcile_def)
  then show thesis
    by (intro that) (auto simp: introspect_def Let_def split: option.splits sum.splits)
qed

lemma reconcile_first_events:
  "\<exists>rest. events (snd (reconcile env layer cols n st)) =
     events st @ [JobChanged (setStatistics n 0 0 0 (job st)),
       DbExec (updateStmt layer (tempTableName (job st)) (updateColumns cols) (primaryKeyColumns cols))] @ rest"
  by (auto simp: reconcile_def Let_def exec_count_def split: sum.splits prod.splits)

lemma reconcile_update_refused:
  assumes "exec env (events st @ [JobChanged (setStatistics n 0 0 0 (job st))])
     (updateStmt layer (tempTableName (job st)) (updateColumns cols) (primaryKeyColumns cols)) = Inl m"
  shows "reconcile env layer cols n st =
     (Some (DbError m), emit (DbExec (updateStmt layer (tempTableName (job st)) (updateColumns cols)
        (primaryKeyColumns cols))) (mutate (setStatistics n 0 0 0) st))"
  using assms by (simp add: reconcile_def Let_def exec_count_def)


text \<open>
  Claim C9. Without a column outside the primary key the pull writes
  \<^verbatim>\<open>update "s"."t"  set  from "tmp" where (...) and ()\<close>: no assignment follows \<^verbatim>\<open>set\<close>
  and nothing stands between the last parentheses, which PostgreSQL's grammar does not
  allow. A pull that comes as far as the reconciliation for a table whose columns all
  belong to the primary key executes this statement, right after it has published the
  number of pulled features. With a database that refuses the statement, and a catalog
  that reports only primary-key columns, no pull of a job that is not FINISHED ends
  FINISHED, nor does the handler of the worker loop leave it so.
\<close>

theorem update_without_columns:
  "updateStmt layer tmp [] pks =
     ''update \"'' @ target_table_schema layer @ ''\".\"'' @ target_table_name layer
     @ ''\"  set  from \"'' @ tmp @ ''\" where (''
     @ pk_condition_loop (target_table_name layer) tmp pks 0 @ '') and ()'' \<and>
   updateStmt layer tmp [] pks = render_update (update_ast layer tmp [] pks) \<and>
   upd_set (update_ast layer tmp [] pks) = [] \<and>
   \<not> valid_update (update_ast layer tmp [] pks) \<and>
   run_update (update_ast layer tmp [] pks) target scratch = None \<and>
   (reaches_reconcile env st layer' tableFields cols pulled st3 \<and>
    list_all (\<lambda>p. isPrimaryKey (snd p)) tableFields \<longrightarrow>
      updateColumns cols = [] \<and>
      (\<exists>rest. events (snd (pull env st)) =
         events st3 @ [JobChanged (setStatistics pulled 0 0 0 (job st)),
           DbExec (updateStmt layer' (tempTableName (job st)) [] (primaryKeyColumns cols))] @ rest)) \<and>
   (getStatus (job st) \<noteq> FINISHED \<and>
    (\<forall>evs s t tf. getTableFields env evs s t = Inr tf \<longrightarrow> list_all (\<lambda>p. isPrimaryKey (snd p)) tf) \<and>
    (\<forall>evs layer tmp pks. \<exists>m. exec env evs (updateStmt layer tmp [] pks) = Inl m) \<longrightarrow>
      getStatus (job (snd (pull env st))) \<noteq> FINISHED \<and>
      getStatus (job (snd (catch (pull env st)))) \<noteq> FINISHED)"
proof (intro conjI impI)
  show "updateStmt layer tmp [] pks =
     ''update \"'' @ target_table_schema layer @ ''\".\"'' @ target_table_name layer
     @ ''\"  set  from \"'' @ tmp @ ''\" where (''
     @ pk_condition_loop (target_table_name layer) tmp pks 0 @ '') and ()''"
    by (rule updateStmt_no_columns)
  show "updateStmt layer tmp [] pks = render_update (update_ast layer tmp [] pks)"
    by (rule updateStmt_render)
  show "upd_set (update_ast layer tmp [] pks) = []" by (simp add: update_ast_def)
  show nv: "\<not> valid_update (update_ast layer tmp [] pks)" by (simp add: valid_update_ast)
  then show "run_update (update_ast layer tmp [] pks) target scratch = None"
    by (simp add: run_update_def)
next
  assume a: "reaches_reconcile env st layer' tableFields cols pulled st3 \<and>
    list_all (\<lambda>p. isPrimaryKey (snd p)) tableFields"
  then have rr: "reaches_reconcile env st layer' tableFields cols pulled st3" by simp
  from rr obtain j ofs where "partition_columns j ofs tableFields no_columns = Inr cols"
    by (rule reaches_reconcile_catalog)
  from all_keys_no_update_columns[OF this] a show u: "updateColumns cols = []"
    by (simp add: no_columns_def)
  from reaches_reconcile_pull[OF rr] reconcile_first_events[of env layer' cols pulled st3] u
  show "\<exists>rest. events (snd (pull env st)) =
         events st3 @ [JobChanged (setStatistics pulled 0 0 0 (job st)),
           DbExec (updateStmt layer' (tempTableName (job st)) [] (primaryKeyColumns cols))] @ rest"
    by simp
next
  assume h: "getStatus (job st) \<noteq> FINISHED \<and>
    (\<forall>evs s t tf. getTableFields env evs s t = Inr tf \<longrightarrow> list_all (\<lambda>p. isPrimaryKey (snd p)) tf) \<and>
    (\<forall>evs layer tmp pks. \<exists>m. exec env evs (updateStmt layer tmp [] pks) = Inl m)"
  obtain r st' where p: "pull env st = (r, st')" by (cases "pull env st")
  have nf: "getStatus (job st') \<noteq> FINISHED"
  proof
    assume f: "getStatus (job st') = FINISHED"
    show False
    proof (cases r)
      case (Some e)
      with p pull_thrown_status[of env st e st'] h f show False by simp
    next
      case None
      with p f obtain layer0 tf cols0 n st3 where rr: "reaches_reconcile env st layer0 tf cols0 n st3"
        and rc: "reconcile env layer0 cols0 n st3 = (None, st')"
        by (auto elim: pull_FINISHED_reaches)
      from rr obtain j ofs evs where pc: "partition_columns j ofs tf no_columns = Inr cols0"
        and gt: "getTableFields env evs (target_table_schema layer0) (target_table_name layer0) = Inr tf"
        by (rule reaches_reconcile_catalog)
      from h gt have "list_all (\<lambda>p. isPrimaryKey (snd p)) tf" by blast
      from all_keys_no_update_columns[OF pc this] have u: "updateColumns cols0 = []"
        by (simp add: no_columns_def)
      from reconcile_None[OF rc] u obtain tu where
        "exec env (events st3 @ [JobChanged (setStatistics n 0 0 0 (job st3))])
           (updateStmt layer0 (tempTableName (job st3)) [] (primaryKeyColumns cols0)) = Inr tu"
        by auto
      moreover from h obtain m where
        "exec env (events st3 @ [JobChanged (setStatistics n 0 0 0 (job st3))])
           (updateStmt layer0 (tempTableName (job st3)) [] (primaryKeyColumns cols0)) = Inl m"
        by blast
      ultimately show False by simp
    qed
  qed
  with p show "getStatus (job (snd (pull env st))) \<noteq> FINISHED" by simp
  from nf p show "getStatus (job (snd (catch (pull env st)))) \<noteq> FINISHED"
    by (cases r; cases "the r") (auto simp: failed_def setStatus_def setMessage_def)
qed


lemma demo_only_key_reaches_reconcile:
  "reaches_reconcile demo_env_only_key demo_state demo_layer demo_only_key demo_only_key_columns 1
     demo_only_key_streamed"
proof -
  let ?st1 = "\<lparr>job = demo_job, events = [OgrOpen ''/data/roads.shp'', OgrGetLayerByName ''roads'', OgrResetReading]\<rparr>"
  let ?st2 = "\<lparr>job = demo_job, events = [OgrOpen ''/data/roads.shp'', OgrGetLayerByName ''roads'', OgrResetReading,
      DbGetTransaction, DbCreateTempTable ''public'' ''roads'' ''batyr_42'', DbGetTableFields ''public'' ''roads'']\<rparr>"
  have 1: "getLayer demo_env_only_key (getLayerName (job demo_state)) = Inr demo_layer"
    by (simp add: demo_env_only_key_def demo_env_def)
  have 2: "open_source demo_env_only_key demo_layer demo_state = (Inr demo_ogr_layer, ?st1)"
    by (simp add: open_source_def demo_env_only_key_def demo_env_def demo_dataset_def Let_def emit_def
        demo_layer_def demo_state_def demo_job_def)
  have 3: "check_geom_field_count demo_env_only_key demo_ogr_layer = None"
    by (simp add: check_geom_field_count_def demo_ogr_layer_def)
  have 4: "getTransaction demo_env_only_key (events ?st1)"
    by (simp add: demo_env_only_key_def demo_env_def)
  have 5: "introspect demo_env_only_key demo_layer (collect_fields (GetFieldDefns demo_ogr_layer) 0 Map.empty)
      (emit DbGetTransaction ?st1) = (Inr (demo_only_key, demo_only_key_columns), ?st2)"
    by code_simp
  have 6: "stream demo_env_only_key (source_features demo_ogr_layer (job demo_state)) demo_only_key
      (collect_fields (GetFieldDefns demo_ogr_layer) 0 Map.empty) demo_only_key_columns ?st2
      = (Inr 1, demo_only_key_streamed)"
    by code_simp
  from 1 2 3 4 5 6 show ?thesis
    unfolding reaches_reconcile_def by blast
qed

theorem update_without_columns_witness:
  "updateStmt demo_layer ''batyr_42'' [] [''id''] =
     ''update \"'' @ target_table_schema demo_layer @ ''\".\"'' @ target_table_name demo_layer
     @ ''\"  set  from \"'' @ ''batyr_42'' @ ''\" where (''
     @ pk_condition_loop (target_table_name demo_layer) ''batyr_42'' [''id''] 0 @ '') and ()'' \<and>
   updateColumns demo_only_key_columns = [] \<and>
   (\<exists>rest. events (snd (pull demo_env_only_key demo_state)) =
      events demo_only_key_streamed @ [JobChanged (setStatistics 1 0 0 0 (job demo_state)),
        DbExec (updateStmt demo_layer (tempTableName (job demo_state)) []
                  (primaryKeyColumns demo_only_key_columns))] @ rest) \<and>
   getStatus (job (snd (pull demo_env_only_key demo_state))) \<noteq> FINISHED \<and>
   getStatus (job (snd (catch (pull demo_env_only_key demo_state)))) \<noteq> FINISHED"
proof -
  have k: "list_all (\<lambda>p. isPrimaryKey (snd p)) demo_only_key"
    by (simp add: demo_only_key_def)
  have h1: "getStatus (job demo_state) \<noteq> FINISHED"
    by (simp add: demo_state_def demo_job_def)
  have h2: "\<forall>evs s t tf. getTableFields demo_env_only_key evs s t = Inr tf \<longrightarrow>
      list_all (\<lambda>p. isPrimaryKey (snd p)) tf"
    using k by (simp add: demo_env_only_key_def)
  have h3: "\<forall>evs layer tmp pks. \<exists>m. exec demo_env_only_key evs (updateStmt layer tmp [] pks) = Inl m"
    by (simp add: demo_env_only_key_def updateStmt_no_columns_occurs)
  note w = update_without_columns[of demo_layer "''batyr_42''" "[''id'']" "[]" "[]" demo_env_only_key
      demo_state demo_layer demo_only_key demo_only_key_columns 1 demo_only_key_streamed]
  note a = w[THEN conjunct1]
  note rest = w[THEN conjunct2, THEN conjunct2, THEN conjunct2, THEN conjunct2, THEN conjunct2]
  note b = rest[THEN conjunct1, rule_format, OF conjI[OF demo_only_key_reaches_reconcile k]]
  note c = rest[THEN conjunct2, rule_format, OF conjI[OF h1 conjI[OF h2 h3]]]
  from a b[THEN conjunct1] b[THEN conjunct2] c[THEN conjunct1] c[THEN conjunct2]
  show ?thesis by (intro conjI)
qed

end
